theory Spec2Isabelle
  imports Main "HOL-Library.Char_ord" "HOL-Library.List_Lexorder"
begin

section \<open>QualitySync: data model\<close>

text \<open>
  The backend keeps three tables (schema.sql): \<open>users\<close>, \<open>test_cases\<close> and
  \<open>unlisted_bugs\<close>. A row is a record, a table is the list of its rows, an enum type
  of the schema is a datatype whose constructors are in the order of the declaration.
  UUIDs and texts are strings, timestamps are natural numbers.

  A handler is a function of the environment of the request, the authenticated user
  (\<open>req.user\<close>), the parameters and body of the request and the tables; it returns its
  answer and, when it writes, the tables it leaves. The columns a select joins in for
  display (assignee, creator, source bug), the log and the rate limiters take no part
  in the answers' status or in the tables, and are left out.
\<close>

type_synonym uuid = string
type_synonym timestamp = nat

datatype user_role = PM | QA | ENG
datatype test_status = Pending | Pass | Fail | Escalated
datatype bug_status = Open | In_progress | Resolved | Closed | Converted_to_test
datatype bug_severity = Low | Medium | High | Critical

record user =
  u_id :: uuid
  u_email :: string
  u_name :: string
  u_role :: user_role
  u_is_verified :: bool
  u_reset_password_token :: "string option"
  u_reset_password_expires :: "timestamp option"

record test_case_row =
  t_id :: uuid
  t_module_platform :: string
  t_test_case :: string
  t_expected_result :: string
  t_status :: test_status
  t_evidence_url :: "string option"
  t_notes :: "string option"
  t_assigned_to :: uuid
  t_created_by :: uuid
  t_source_bug_id :: "uuid option"
  t_created_at :: timestamp
  t_updated_at :: timestamp

record bug_row =
  b_id :: uuid
  b_module_platform :: string
  b_jam_link :: string
  b_description :: string
  b_note :: "string option"
  b_severity :: bug_severity
  b_status :: bug_status
  b_created_by :: uuid
  b_converted_to_test_id :: "uuid option"
  b_converted_at :: "timestamp option"
  b_created_at :: timestamp
  b_updated_at :: timestamp

record db =
  users :: "user list"
  test_cases :: "test_case_row list"
  unlisted_bugs :: "bug_row list"

section \<open>The persistence interface and the environment of a request\<close>

text \<open>
  Every call of the Supabase client answers \<open>{data, error}\<close>. Which calls of a request
  answer with an error is not decided by the handler, so it is an input of the model:
  \<open>fails env c\<close> says that the call \<open>c\<close> (an operation on a table; no handler
  performs the same one twice) returns an error and leaves the table as it was. The
  environment also carries the clock, the id \<open>uuid_generate_v4()\<close> gives to an inserted
  row, the token of \<open>generateRandomToken\<close> and whether the mail provider refuses the
  message.
\<close>

datatype db_call =
    SelectUsers | UpdateUsers
  | SelectTestCases | InsertTestCases | UpdateTestCases
  | SelectUnlistedBugs | InsertUnlistedBugs | UpdateUnlistedBugs

record env =
  fails :: "db_call \<Rightarrow> bool"
  email_fails :: bool
  now :: timestamp
  new_id :: uuid
  random_token :: string

text \<open>\<open>.single()\<close>: the data is the row when exactly one row matches, an error otherwise.\<close>

fun single :: "'a list \<Rightarrow> 'a option" where
  "single [] = None"
| "single [x] = Some x"
| "single (x # y # zs) = None"

definition select_single :: "env \<Rightarrow> db_call \<Rightarrow> 'a list \<Rightarrow> 'a option" where
  "select_single env c rows = (if fails env c then None else single rows)"

text \<open>
  The handlers throw \<open>ApiError(statusCode, message)\<close>, which the error handler renders
  with that status; \<open>handleValidation\<close> answers 400 with the list of field errors and
  \<open>authorize\<close> answers 403. A successful answer is its HTTP status and its data.
\<close>

datatype error =
    ApiError nat string
  | ValidationFailed "(string \<times> string) list"
  | AccessDenied string

fun statusCode :: "error \<Rightarrow> nat" where
  "statusCode (ApiError c m) = c"
| "statusCode (ValidationFailed es) = 400"
| "statusCode (AccessDenied m) = 403"

type_synonym 'a outcome = "error + nat \<times> 'a"

text \<open>JavaScript truthiness of an optional string, and \<open>x || null\<close>.\<close>

fun truthy :: "string option \<Rightarrow> bool" where
  "truthy None = False"
| "truthy (Some s) = (s \<noteq> [])"

definition or_null :: "string option \<Rightarrow> string option" where
  "or_null x = (if truthy x then x else None)"

section \<open>Inserting a test case\<close>

text \<open>
  An insert into \<open>test_cases\<close> names the columns the handler gives; the others take
  their defaults (\<open>status\<close> is \<open>'pending'\<close>, \<open>notes\<close> and, when not given,
  \<open>source_bug_id\<close> are null, both timestamps are \<open>NOW()\<close>). A null in a \<open>NOT NULL\<close>
  column is an error of the insert; any other refusal of the database is an error the
  environment decides (\<open>fails env InsertTestCases\<close>).
\<close>

record test_case_insert =
  ins_module_platform :: "string option"
  ins_test_case :: "string option"
  ins_expected_result :: "string option"
  ins_evidence_url :: "string option"
  ins_assigned_to :: "uuid option"
  ins_created_by :: uuid
  ins_source_bug_id :: "uuid option"

definition insert_test_cases :: "env \<Rightarrow> test_case_insert \<Rightarrow> db \<Rightarrow> test_case_row option \<times> db" where
  "insert_test_cases env ins d =
     (case (ins_module_platform ins, ins_test_case ins, ins_expected_result ins, ins_assigned_to ins) of
        (Some mp, Some tc, Some er, Some a) \<Rightarrow>
          if fails env InsertTestCases then (None, d)
          else
            let row = \<lparr> t_id = new_id env, t_module_platform = mp, t_test_case = tc,
                        t_expected_result = er, t_status = Pending,
                        t_evidence_url = ins_evidence_url ins, t_notes = None,
                        t_assigned_to = a, t_created_by = ins_created_by ins,
                        t_source_bug_id = ins_source_bug_id ins,
                        t_created_at = now env, t_updated_at = now env \<rparr>
            in (Some row, d\<lparr>test_cases := test_cases d @ [row]\<rparr>)
      | _ \<Rightarrow> (None, d))"

section \<open>bugController.convertToTest\<close>

record convert_body =
  cb_assigned_to :: "uuid option"
  cb_test_case :: "string option"
  cb_expected_result :: "string option"

text \<open>
  The update of the bug is awaited but its answer is not looked at: when it returns an
  error the handler goes on and answers 201. The notification mail is sent inside a
  \<open>try\<close> whose \<open>catch\<close> only logs, so it changes neither the answer nor the tables.
\<close>

definition mark_converted :: "env \<Rightarrow> uuid \<Rightarrow> uuid \<Rightarrow> bug_row list \<Rightarrow> bug_row list" where
  "mark_converted env bid tid bugs =
     (if fails env UpdateUnlistedBugs then bugs
      else map (\<lambda>b. if b_id b = bid
                     then b\<lparr>b_status := Converted_to_test, b_converted_to_test_id := Some tid,
                            b_converted_at := Some (now env), b_updated_at := now env\<rparr>
                     else b) bugs)"

definition convertToTest ::
  "env \<Rightarrow> user \<Rightarrow> uuid \<Rightarrow> convert_body \<Rightarrow> db \<Rightarrow> test_case_row outcome \<times> db" where
  "convertToTest env actor bid body d =
     (case select_single env SelectUnlistedBugs (filter (\<lambda>b. b_id b = bid) (unlisted_bugs d)) of
        None \<Rightarrow> (Inl (ApiError 404 ''Bug not found''), d)
      | Some bug \<Rightarrow>
          if b_status bug = Converted_to_test
          then (Inl (ApiError 400 ''This bug has already been converted to a test case''), d)
          else
            (case select_single env SelectUsers
                    (filter (\<lambda>u. Some (u_id u) = cb_assigned_to body) (users d)) of
               None \<Rightarrow> (Inl (ApiError 400 ''Assigned user not found''), d)
             | Some assignee \<Rightarrow>
                 if u_role assignee \<noteq> QA
                 then (Inl (ApiError 400 ''Tests can only be assigned to QA testers''), d)
                 else
                   (case insert_test_cases env
                           \<lparr> ins_module_platform = Some (b_module_platform bug),
                             ins_test_case = cb_test_case body,
                             ins_expected_result = cb_expected_result body,
                             ins_evidence_url = Some (b_jam_link bug),
                             ins_assigned_to = cb_assigned_to body,
                             ins_created_by = u_id actor,
                             ins_source_bug_id = Some (b_id bug) \<rparr> d of
                      (None, d1) \<Rightarrow> (Inl (ApiError 500 ''Failed to convert bug to test case''), d1)
                    | (Some testCaseData, d1) \<Rightarrow>
                        (Inr (201, testCaseData),
                         d1\<lparr>unlisted_bugs :=
                               mark_converted env bid (t_id testCaseData) (unlisted_bugs d1)\<rparr>))))"


section \<open>testController: createTest, updateTestResult, updateTest\<close>

text \<open>
  A request body is the JSON object of the request: every field is a string or absent
  (\<open>undefined\<close>). Comparing a column with an absent value selects no row.
\<close>

record create_test_body =
  ct_module_platform :: "string option"
  ct_test_case :: "string option"
  ct_expected_result :: "string option"
  ct_evidence_url :: "string option"
  ct_assigned_to :: "uuid option"

definition createTest ::
  "env \<Rightarrow> user \<Rightarrow> create_test_body \<Rightarrow> db \<Rightarrow> test_case_row outcome \<times> db" where
  "createTest env actor body d =
     (case select_single env SelectUsers
             (filter (\<lambda>u. Some (u_id u) = ct_assigned_to body) (users d)) of
        None \<Rightarrow> (Inl (ApiError 400 ''Assigned user not found''), d)
      | Some assignee \<Rightarrow>
          if u_role assignee \<noteq> QA
          then (Inl (ApiError 400 ''Tests can only be assigned to QA testers''), d)
          else
            (case insert_test_cases env
                    \<lparr> ins_module_platform = ct_module_platform body,
                      ins_test_case = ct_test_case body,
                      ins_expected_result = ct_expected_result body,
                      ins_evidence_url = or_null (ct_evidence_url body),
                      ins_assigned_to = ct_assigned_to body,
                      ins_created_by = u_id actor,
                      ins_source_bug_id = None \<rparr> d of
               (None, d1) \<Rightarrow> (Inl (ApiError 500 ''Failed to create test case''), d1)
             | (Some test, d1) \<Rightarrow> (Inr (201, test), d1)))"

text \<open>
  \<open>.update(values).eq('id', id).select(...).single()\<close>: every row with that id is
  changed (the trigger sets \<open>updated_at\<close>), and the data is the changed row when there
  is exactly one. A value that is not a label of the column's enum type is an error of
  the update.
\<close>

fun parse_test_status :: "string \<Rightarrow> test_status option" where
  "parse_test_status s =
     (if s = ''pending'' then Some Pending
      else if s = ''pass'' then Some Pass
      else if s = ''fail'' then Some Fail
      else if s = ''escalated'' then Some Escalated
      else None)"

definition update_test_cases ::
  "env \<Rightarrow> uuid \<Rightarrow> (test_case_row \<Rightarrow> test_case_row) \<Rightarrow> db \<Rightarrow> test_case_row option \<times> db" where
  "update_test_cases env tid f d =
     (if fails env UpdateTestCases then (None, d)
      else
        let rows = map (\<lambda>t. if t_id t = tid then (f t)\<lparr>t_updated_at := now env\<rparr> else t)
                       (test_cases d)
        in (single (filter (\<lambda>t. t_id t = tid) rows), d\<lparr>test_cases := rows\<rparr>))"

record result_body =
  rb_status :: "string option"
  rb_evidence_url :: "string option"
  rb_notes :: "string option"

definition updateTestResult ::
  "env \<Rightarrow> user \<Rightarrow> uuid \<Rightarrow> result_body \<Rightarrow> db \<Rightarrow> test_case_row outcome \<times> db" where
  "updateTestResult env actor tid body d =
     (case select_single env SelectTestCases (filter (\<lambda>t. t_id t = tid) (test_cases d)) of
        None \<Rightarrow> (Inl (ApiError 404 ''Test case not found''), d)
      | Some existingTest \<Rightarrow>
          if t_assigned_to existingTest \<noteq> u_id actor
          then (Inl (ApiError 403 ''You can only update tests assigned to you''), d)
          else
            (case (case rb_status body of
                     None \<Rightarrow> Some (\<lambda>t. t)
                   | Some s \<Rightarrow> map_option (\<lambda>st t. t\<lparr>t_status := st\<rparr>) (parse_test_status s)) of
               None \<Rightarrow> (Inl (ApiError 500 ''Failed to update test result''), d)
             | Some set_status \<Rightarrow>
                 (case update_test_cases env tid
                         (\<lambda>t. (set_status t)\<lparr>t_evidence_url := or_null (rb_evidence_url body),
                                            t_notes := or_null (rb_notes body)\<rparr>) d of
                    (None, d1) \<Rightarrow> (Inl (ApiError 500 ''Failed to update test result''), d1)
                  | (Some test, d1) \<Rightarrow> (Inr (200, test), d1))))"

record update_test_body =
  ut_module_platform :: "string option"
  ut_test_case :: "string option"
  ut_expected_result :: "string option"
  ut_evidence_url :: "string option"
  ut_assigned_to :: "uuid option"

text \<open>The object \<open>updateData\<close> of \<open>updateTest\<close>, without the assignee.\<close>

definition updateTest_data :: "update_test_body \<Rightarrow> test_case_row \<Rightarrow> test_case_row" where
  "updateTest_data body t =
     (let t1 = (case ut_module_platform body of
                  Some v \<Rightarrow> if v \<noteq> [] then t\<lparr>t_module_platform := v\<rparr> else t | None \<Rightarrow> t);
          t2 = (case ut_test_case body of
                  Some v \<Rightarrow> if v \<noteq> [] then t1\<lparr>t_test_case := v\<rparr> else t1 | None \<Rightarrow> t1);
          t3 = (case ut_expected_result body of
                  Some v \<Rightarrow> if v \<noteq> [] then t2\<lparr>t_expected_result := v\<rparr> else t2 | None \<Rightarrow> t2)
      in (case ut_evidence_url body of
            Some v \<Rightarrow> t3\<lparr>t_evidence_url := or_null (Some v)\<rparr> | None \<Rightarrow> t3))"

definition updateTest ::
  "env \<Rightarrow> user \<Rightarrow> uuid \<Rightarrow> update_test_body \<Rightarrow> db \<Rightarrow> test_case_row outcome \<times> db" where
  "updateTest env actor tid body d =
     (case select_single env SelectTestCases (filter (\<lambda>t. t_id t = tid) (test_cases d)) of
        None \<Rightarrow> (Inl (ApiError 404 ''Test case not found''), d)
      | Some existingTest \<Rightarrow>
          (case (if truthy (ut_assigned_to body)
                    \<and> ut_assigned_to body \<noteq> Some (t_assigned_to existingTest)
                 then
                   (case select_single env SelectUsers
                           (filter (\<lambda>u. Some (u_id u) = ut_assigned_to body) (users d)) of
                      None \<Rightarrow> Inl (ApiError 400 ''Assigned user not found'')
                    | Some assignee \<Rightarrow>
                        if u_role assignee \<noteq> QA
                        then Inl (ApiError 400 ''Tests can only be assigned to QA testers'')
                        else Inr (\<lambda>t. t\<lparr>t_assigned_to := u_id assignee\<rparr>))
                 else Inr (\<lambda>t. t)) of
             Inl e \<Rightarrow> (Inl e, d)
           | Inr reassign \<Rightarrow>
               (case update_test_cases env tid (\<lambda>t. reassign (updateTest_data body t)) d of
                  (None, d1) \<Rightarrow> (Inl (ApiError 500 ''Failed to update test case''), d1)
                | (Some test, d1) \<Rightarrow> (Inr (200, test), d1))))"

section \<open>testController: getTests, getTest\<close>

text \<open>
  The list query: the role's scope, the three filters of the query string, the order,
  and the page \<open>range(offset, offset + limit - 1)\<close>. The message of the 500 is
  followed in the source by the text of the client's error. PostgreSQL's \<open>ILIKE\<close> is a
  parameter. Text columns are ordered as byte strings and the enum column by the
  position of the label; rows with equal keys keep the order of the table.
\<close>

record tests_query =
  q_page :: "nat option"
  q_limit :: "nat option"
  q_status :: "string option"
  q_module_platform :: "string option"
  q_search :: "string option"
  q_sort :: "string option"
  q_order :: "string option"

record tests_page =
  tests :: "test_case_row list"
  pg_page :: nat
  pg_limit :: nat
  pg_total :: nat
  pg_totalPages :: nat

fun status_rank :: "test_status \<Rightarrow> nat" where
  "status_rank Pending = 0"
| "status_rank Pass = 1"
| "status_rank Fail = 2"
| "status_rank Escalated = 3"

definition order_tests :: "string \<Rightarrow> bool \<Rightarrow> test_case_row list \<Rightarrow> test_case_row list" where
  "order_tests sortField ascending rows =
     (let sorted =
            (if sortField = ''updated_at'' then sort_key t_updated_at rows
             else if sortField = ''status'' then sort_key (\<lambda>t. status_rank (t_status t)) rows
             else if sortField = ''module_platform'' then sort_key t_module_platform rows
             else sort_key t_created_at rows)
      in if ascending then sorted else rev sorted)"

definition scope_tests :: "user \<Rightarrow> test_case_row list \<Rightarrow> test_case_row list" where
  "scope_tests actor rows =
     (if u_role actor = QA then filter (\<lambda>t. t_assigned_to t = u_id actor) rows
      else if u_role actor = ENG then filter (\<lambda>t. t_status t = Fail \<or> t_status t = Escalated) rows
      else rows)"

definition filter_tests ::
  "(string \<Rightarrow> string \<Rightarrow> bool) \<Rightarrow> tests_query \<Rightarrow> test_case_row list \<Rightarrow> test_case_row list" where
  "filter_tests ilike q rows =
     (let by_status =
            (case q_status q of
               Some s \<Rightarrow>
                 if s \<noteq> [] \<and> s \<in> set [''pending'', ''pass'', ''fail'', ''escalated'']
                 then filter (\<lambda>t. Some (t_status t) = parse_test_status s) rows else rows
             | None \<Rightarrow> rows);
          by_module =
            (case q_module_platform q of
               Some m \<Rightarrow>
                 if m \<noteq> [] then filter (\<lambda>t. ilike (''%'' @ m @ ''%'') (t_module_platform t)) by_status
                 else by_status
             | None \<Rightarrow> by_status)
      in (case q_search q of
            Some s \<Rightarrow>
              if s \<noteq> []
              then filter (\<lambda>t. ilike (''%'' @ s @ ''%'') (t_test_case t)
                               \<or> ilike (''%'' @ s @ ''%'') (t_expected_result t)) by_module
              else by_module
          | None \<Rightarrow> by_module))"

definition getTests ::
  "(string \<Rightarrow> string \<Rightarrow> bool) \<Rightarrow> env \<Rightarrow> user \<Rightarrow> tests_query \<Rightarrow> db \<Rightarrow> tests_page outcome" where
  "getTests ilike env actor q d =
     (let page = (case q_page q of Some p \<Rightarrow> if p = 0 then 1 else p | None \<Rightarrow> 1);
          limit = (case q_limit q of Some l \<Rightarrow> if l = 0 then 10 else l | None \<Rightarrow> 10);
          offset = (page - 1) * limit;
          sort = (case q_sort q of Some s \<Rightarrow> s | None \<Rightarrow> ''created_at'');
          order = (case q_order q of Some s \<Rightarrow> s | None \<Rightarrow> ''desc'');
          matching = filter_tests ilike q (scope_tests actor (test_cases d));
          sortField =
            (if sort \<in> set [''created_at'', ''updated_at'', ''status'', ''module_platform'']
             then sort else ''created_at'');
          ordered = order_tests sortField (order = ''asc'') matching
      in if fails env SelectTestCases
         then Inl (ApiError 500 ''Failed to fetch test cases'')
         else Inr (200, \<lparr> tests = take limit (drop offset ordered),
                          pg_page = page, pg_limit = limit, pg_total = length matching,
                          pg_totalPages = (length matching + limit - 1) div limit \<rparr>))"

definition getTest :: "env \<Rightarrow> user \<Rightarrow> uuid \<Rightarrow> db \<Rightarrow> test_case_row outcome" where
  "getTest env actor tid d =
     (case select_single env SelectTestCases (filter (\<lambda>t. t_id t = tid) (test_cases d)) of
        None \<Rightarrow> Inl (ApiError 404 ''Test case not found'')
      | Some test \<Rightarrow>
          if u_role actor = QA \<and> t_assigned_to test \<noteq> u_id actor
          then Inl (ApiError 403 ''You do not have access to this test case'')
          else if u_role actor = ENG \<and> \<not> (t_status test = Fail \<or> t_status test = Escalated)
          then Inl (ApiError 403 ''You can only view failed or escalated test cases'')
          else Inr (200, test))"


section \<open>bugController: getBug, createBug, updateBug\<close>

definition getBug :: "env \<Rightarrow> user \<Rightarrow> uuid \<Rightarrow> db \<Rightarrow> bug_row outcome" where
  "getBug env actor bid d =
     (case select_single env SelectUnlistedBugs (filter (\<lambda>b. b_id b = bid) (unlisted_bugs d)) of
        None \<Rightarrow> Inl (ApiError 404 ''Bug not found'')
      | Some bug \<Rightarrow>
          if u_role actor = QA \<and> b_created_by bug \<noteq> u_id actor
          then Inl (ApiError 403 ''You do not have access to this bug'')
          else Inr (200, bug))"


fun parse_bug_severity :: "string \<Rightarrow> bug_severity option" where
  "parse_bug_severity s =
     (if s = ''low'' then Some Low
      else if s = ''medium'' then Some Medium
      else if s = ''high'' then Some High
      else if s = ''critical'' then Some Critical
      else None)"

record create_bug_body =
  cbg_module_platform :: "string option"
  cbg_jam_link :: "string option"
  cbg_description :: "string option"
  cbg_note :: "string option"
  cbg_severity :: "string option"

text \<open>
  The insert into \<open>unlisted_bugs\<close>: \<open>status\<close> takes its default \<open>'open'\<close>, the
  conversion columns are null.
\<close>

definition createBug ::
  "env \<Rightarrow> user \<Rightarrow> create_bug_body \<Rightarrow> db \<Rightarrow> bug_row outcome \<times> db" where
  "createBug env actor body d =
     (case (cbg_module_platform body, cbg_jam_link body, cbg_description body,
            parse_bug_severity (case or_null (cbg_severity body) of Some s \<Rightarrow> s | None \<Rightarrow> ''medium'')) of
        (Some mp, Some link, Some descr, Some sev) \<Rightarrow>
          if fails env InsertUnlistedBugs
          then (Inl (ApiError 500 ''Failed to create unlisted bug''), d)
          else
            let bug = \<lparr> b_id = new_id env, b_module_platform = mp, b_jam_link = link,
                        b_description = descr, b_note = or_null (cbg_note body),
                        b_severity = sev, b_status = Open, b_created_by = u_id actor,
                        b_converted_to_test_id = None, b_converted_at = None,
                        b_created_at = now env, b_updated_at = now env \<rparr>
            in (Inr (201, bug), d\<lparr>unlisted_bugs := unlisted_bugs d @ [bug]\<rparr>)
      | _ \<Rightarrow> (Inl (ApiError 500 ''Failed to create unlisted bug''), d))"

record update_bug_body =
  ub_module_platform :: "string option"
  ub_jam_link :: "string option"
  ub_description :: "string option"
  ub_note :: "string option"
  ub_severity :: "string option"
  ub_status :: "string option"



section \<open>authController.forgotPassword\<close>

text \<open>
  The answer of the lookup decides alone whether the handler stops with its success
  message; the update of the token is not checked; an exception of the mail service is
  rethrown as a 500. The reset token lives one hour (\<open>60 * 60 * 1000\<close> milliseconds).
\<close>

definition forgotPassword :: "env \<Rightarrow> string option \<Rightarrow> db \<Rightarrow> string outcome \<times> db" where
  "forgotPassword env email d =
     (case select_single env SelectUsers (filter (\<lambda>u. Some (u_email u) = email) (users d)) of
        None \<Rightarrow> (Inr (200, ''If an account exists, a password reset email has been sent.''), d)
      | Some user \<Rightarrow>
          let d1 = (if fails env UpdateUsers then d
                    else d\<lparr>users :=
                           map (\<lambda>u. if u_id u = u_id user
                                     then u\<lparr>u_reset_password_token := Some (random_token env),
                                            u_reset_password_expires := Some (now env + 60 * 60 * 1000)\<rparr>
                                     else u) (users d)\<rparr>)
          in if email_fails env
             then (Inl (ApiError 500 ''Failed to send password reset email''), d1)
             else (Inr (200, ''If an account exists, a password reset email has been sent.''), d1))"


section \<open>Request validation (express-validator) and the routes\<close>

text \<open>
  The validators \<open>isURL\<close>, \<open>isUUID\<close> and the sanitizer \<open>trim\<close> belong to the
  validator library, not to this repository: they are parameters. A chain checks the
  field's value as a string (an absent value is the empty string), runs every validator
  of the chain and collects the messages; \<open>optional()\<close> skips the chain when the field
  is absent. \<open>handleValidation\<close> answers 400 when any message was collected, before
  the handler runs. The length of a text is its number of characters.
\<close>

record validator_lib =
  isURL :: "string \<Rightarrow> bool"
  isUUID :: "string \<Rightarrow> bool"
  trim :: "string \<Rightarrow> string"

type_synonym field_error = "string \<times> string"

definition str :: "string option \<Rightarrow> string" where
  "str v = (case v of None \<Rightarrow> [] | Some s \<Rightarrow> s)"

definition check :: "bool \<Rightarrow> string \<Rightarrow> string \<Rightarrow> field_error list" where
  "check ok field msg = (if ok then [] else [(field, msg)])"

definition optional :: "string option \<Rightarrow> field_error list \<Rightarrow> field_error list" where
  "optional v errs = (case v of None \<Rightarrow> [] | Some s \<Rightarrow> errs)"

fun starts_with :: "string \<Rightarrow> string \<Rightarrow> bool" where
  "starts_with s [] = True"
| "starts_with [] (p # ps) = False"
| "starts_with (c # cs) (p # ps) = (c = p \<and> starts_with cs ps)"

text \<open>\<open>s.includes(p)\<close>\<close>

fun str_includes :: "string \<Rightarrow> string \<Rightarrow> bool" where
  "str_includes [] p = (p = [])"
| "str_includes (c # cs) p = (starts_with (c # cs) p \<or> str_includes cs p)"

definition handleValidation :: "field_error list \<Rightarrow> error option" where
  "handleValidation errs = (if errs = [] then None else Some (ValidationFailed errs))"

fun role_name :: "user_role \<Rightarrow> string" where
  "role_name PM = ''PM''"
| "role_name QA = ''QA''"
| "role_name ENG = ''ENG''"

fun join_or :: "string list \<Rightarrow> string" where
  "join_or [] = []"
| "join_or [x] = x"
| "join_or (x # y # zs) = x @ '' or '' @ join_or (y # zs)"

text \<open>
  \<open>authorize(...roles)\<close>. The actor is \<open>req.user\<close>, the user \<open>authenticate\<close> has
  attached to the request.
\<close>

definition authorize :: "user_role list \<Rightarrow> user \<Rightarrow> error option" where
  "authorize roles actor =
     (if u_role actor \<in> set roles then None
      else Some (AccessDenied (''Access denied. Required role: '' @ join_or (map role_name roles))))"

definition uuidParamValidation :: "validator_lib \<Rightarrow> uuid \<Rightarrow> field_error list" where
  "uuidParamValidation lib ident = check (isUUID lib ident) ''id'' ''Invalid ID format''"

text \<open>The chain of \<open>evidence_url\<close> shared by \<open>createTestValidation\<close> and \<open>updateTestResultValidation\<close>.\<close>

definition evidence_url_chain :: "validator_lib \<Rightarrow> string option \<Rightarrow> field_error list" where
  "evidence_url_chain lib v =
     optional v
       (check (isURL lib (str v)) ''evidence_url'' ''Evidence URL must be a valid URL'' @
        check (\<not> (truthy v \<and> \<not> str_includes (str v) ''jam.dev''))
              ''evidence_url'' ''Evidence URL must be a Jam.dev link'')"

definition createTestValidation :: "validator_lib \<Rightarrow> create_test_body \<Rightarrow> field_error list" where
  "createTestValidation lib body =
     check (str (ct_module_platform body) \<noteq> []) ''module_platform'' ''Module/Platform is required'' @
     check (length (str (ct_module_platform body)) \<le> 255)
           ''module_platform'' ''Module/Platform must be less than 255 characters'' @
     check (str (ct_test_case body) \<noteq> []) ''test_case'' ''Test case description is required'' @
     check (5 \<le> length (str (ct_test_case body)) \<and> length (str (ct_test_case body)) \<le> 2000)
           ''test_case'' ''Test case must be between 5 and 2000 characters'' @
     check (str (ct_expected_result body) \<noteq> []) ''expected_result'' ''Expected result is required'' @
     check (5 \<le> length (str (ct_expected_result body)) \<and> length (str (ct_expected_result body)) \<le> 2000)
           ''expected_result'' ''Expected result must be between 5 and 2000 characters'' @
     evidence_url_chain lib (ct_evidence_url body) @
     check (str (ct_assigned_to body) \<noteq> []) ''assigned_to'' ''Assigned tester is required'' @
     check (isUUID lib (str (ct_assigned_to body)))
           ''assigned_to'' ''Assigned tester must be a valid user ID''"

definition route_createTest ::
  "validator_lib \<Rightarrow> env \<Rightarrow> user \<Rightarrow> create_test_body \<Rightarrow> db \<Rightarrow> test_case_row outcome \<times> db" where
  "route_createTest lib env actor body d =
     (case authorize [PM] actor of
        Some e \<Rightarrow> (Inl e, d)
      | None \<Rightarrow>
          (case handleValidation (createTestValidation lib body) of
             Some e \<Rightarrow> (Inl e, d)
           | None \<Rightarrow>
               createTest env actor
                 (body\<lparr>ct_module_platform := map_option (trim lib) (ct_module_platform body),
                       ct_test_case := map_option (trim lib) (ct_test_case body),
                       ct_expected_result := map_option (trim lib) (ct_expected_result body)\<rparr>) d))"

definition updateTestResultValidation ::
  "validator_lib \<Rightarrow> uuid \<Rightarrow> result_body \<Rightarrow> field_error list" where
  "updateTestResultValidation lib ident body =
     check (isUUID lib ident) ''id'' ''Invalid test case ID'' @
     check (str (rb_status body) \<in> set [''pass'', ''fail'', ''escalated''])
           ''status'' ''Status must be pass, fail, or escalated'' @
     evidence_url_chain lib (rb_evidence_url body) @
     optional (rb_notes body)
       (check (length (str (rb_notes body)) \<le> 2000) ''notes'' ''Notes must be less than 2000 characters'')"

definition route_updateTestResult ::
  "validator_lib \<Rightarrow> env \<Rightarrow> user \<Rightarrow> uuid \<Rightarrow> result_body \<Rightarrow> db \<Rightarrow> test_case_row outcome \<times> db" where
  "route_updateTestResult lib env actor ident body d =
     (case authorize [QA] actor of
        Some e \<Rightarrow> (Inl e, d)
      | None \<Rightarrow>
          (case handleValidation (updateTestResultValidation lib ident body) of
             Some e \<Rightarrow> (Inl e, d)
           | None \<Rightarrow>
               updateTestResult env actor ident
                 (body\<lparr>rb_notes := map_option (trim lib) (rb_notes body)\<rparr>) d))"

text \<open>
  \<open>PUT /tests/:id\<close> (testRoutes.js): the array begins with \<open>...uuidParamValidation\<close>,
  which brings its own \<open>handleValidation\<close>, so the id is checked and answered first.
  The chain of \<open>evidence_url\<close> of this route has the \<open>custom\<close> check only.
\<close>

definition updateTest_evidence_url_chain :: "string option \<Rightarrow> field_error list" where
  "updateTest_evidence_url_chain v =
     optional v
       (check (\<not> (truthy v \<and> \<not> str_includes (str v) ''jam.dev''))
              ''evidence_url'' ''Evidence URL must be a Jam.dev link'')"

definition updateTest_validation :: "validator_lib \<Rightarrow> update_test_body \<Rightarrow> field_error list" where
  "updateTest_validation lib body =
     optional (ut_module_platform body)
       (check (length (str (ut_module_platform body)) \<le> 255)
              ''module_platform'' ''Module/Platform must be less than 255 characters'') @
     optional (ut_test_case body)
       (check (5 \<le> length (str (ut_test_case body)) \<and> length (str (ut_test_case body)) \<le> 2000)
              ''test_case'' ''Test case must be between 5 and 2000 characters'') @
     optional (ut_expected_result body)
       (check (5 \<le> length (str (ut_expected_result body))
                 \<and> length (str (ut_expected_result body)) \<le> 2000)
              ''expected_result'' ''Expected result must be between 5 and 2000 characters'') @
     updateTest_evidence_url_chain (ut_evidence_url body) @
     optional (ut_assigned_to body)
       (check (isUUID lib (str (ut_assigned_to body)))
              ''assigned_to'' ''Assigned tester must be a valid user ID'')"

definition route_updateTest ::
  "validator_lib \<Rightarrow> env \<Rightarrow> user \<Rightarrow> uuid \<Rightarrow> update_test_body \<Rightarrow> db \<Rightarrow> test_case_row outcome \<times> db" where
  "route_updateTest lib env actor ident body d =
     (case authorize [PM] actor of
        Some e \<Rightarrow> (Inl e, d)
      | None \<Rightarrow>
          (case handleValidation (uuidParamValidation lib ident) of
             Some e \<Rightarrow> (Inl e, d)
           | None \<Rightarrow>
               (case handleValidation (updateTest_validation lib body) of
                  Some e \<Rightarrow> (Inl e, d)
                | None \<Rightarrow>
                    updateTest env actor ident
                      (body\<lparr>ut_module_platform := map_option (trim lib) (ut_module_platform body),
                            ut_test_case := map_option (trim lib) (ut_test_case body),
                            ut_expected_result := map_option (trim lib) (ut_expected_result body)\<rparr>) d)))"

text \<open>
  \<open>createBugValidation\<close>: the \<open>custom\<close> check of \<open>jam_link\<close> calls \<open>value.includes\<close>
  with no guard, so on an absent value it throws a TypeError, whose text becomes the
  message.
\<close>

definition createBugValidation :: "validator_lib \<Rightarrow> create_bug_body \<Rightarrow> field_error list" where
  "createBugValidation lib body =
     check (str (cbg_module_platform body) \<noteq> []) ''module_platform'' ''Module/Platform is required'' @
     check (length (str (cbg_module_platform body)) \<le> 255)
           ''module_platform'' ''Module/Platform must be less than 255 characters'' @
     check (str (cbg_jam_link body) \<noteq> []) ''jam_link'' ''Jam link is required'' @
     check (isURL lib (str (cbg_jam_link body))) ''jam_link'' ''Jam link must be a valid URL'' @
     (case cbg_jam_link body of
        None \<Rightarrow> [(''jam_link'', ''Cannot read properties of undefined (reading 'includes')'')]
      | Some v \<Rightarrow> check (str_includes v ''jam.dev'') ''jam_link'' ''Must be a valid Jam.dev link'') @
     check (str (cbg_description body) \<noteq> []) ''description'' ''Description is required'' @
     check (10 \<le> length (str (cbg_description body)) \<and> length (str (cbg_description body)) \<le> 2000)
           ''description'' ''Description must be between 10 and 2000 characters'' @
     optional (cbg_note body)
       (check (length (str (cbg_note body)) \<le> 2000) ''note'' ''Note must be less than 2000 characters'') @
     optional (cbg_severity body)
       (check (str (cbg_severity body) \<in> set [''low'', ''medium'', ''high'', ''critical''])
              ''severity'' ''Severity must be low, medium, high, or critical'')"

definition route_createBug ::
  "validator_lib \<Rightarrow> env \<Rightarrow> user \<Rightarrow> create_bug_body \<Rightarrow> db \<Rightarrow> bug_row outcome \<times> db" where
  "route_createBug lib env actor body d =
     (case authorize [QA] actor of
        Some e \<Rightarrow> (Inl e, d)
      | None \<Rightarrow>
          (case handleValidation (createBugValidation lib body) of
             Some e \<Rightarrow> (Inl e, d)
           | None \<Rightarrow>
               createBug env actor
                 (body\<lparr>cbg_module_platform := map_option (trim lib) (cbg_module_platform body),
                       cbg_description := map_option (trim lib) (cbg_description body),
                       cbg_note := map_option (trim lib) (cbg_note body)\<rparr>) d))"

text \<open>\<open>PUT /bugs/:id\<close> (bugRoutes.js): any authenticated role reaches the handler.\<close>

definition updateBug_validation :: "validator_lib \<Rightarrow> update_bug_body \<Rightarrow> field_error list" where
  "updateBug_validation lib body =
     optional (ub_module_platform body)
       (check (length (str (ub_module_platform body)) \<le> 255)
              ''module_platform'' ''Module/Platform must be less than 255 characters'') @
     optional (ub_jam_link body)
       (check (isURL lib (str (ub_jam_link body))) ''jam_link'' ''Jam link must be a valid URL'' @
        check (\<not> (truthy (ub_jam_link body) \<and> \<not> str_includes (str (ub_jam_link body)) ''jam.dev''))
              ''jam_link'' ''Must be a valid Jam.dev link'') @
     optional (ub_description body)
       (check (10 \<le> length (str (ub_description body)) \<and> length (str (ub_description body)) \<le> 2000)
              ''description'' ''Description must be between 10 and 2000 characters'') @
     optional (ub_note body)
       (check (length (str (ub_note body)) \<le> 2000) ''note'' ''Note must be less than 2000 characters'') @
     optional (ub_severity body)
       (check (str (ub_severity body) \<in> set [''low'', ''medium'', ''high'', ''critical''])
              ''severity'' ''Severity must be low, medium, high, or critical'') @
     optional (ub_status body)
       (check (str (ub_status body) \<in> set [''open'', ''in_progress'', ''resolved'', ''closed''])
              ''status'' ''Invalid status value'')"



section \<open>Sequences of conversion calls, and what a list request shows\<close>

text \<open>The test cases derived from a bug are the rows whose \<open>source_bug_id\<close> is its id.\<close>

definition tests_from_bug :: "uuid \<Rightarrow> db \<Rightarrow> test_case_row list" where
  "tests_from_bug bid d = filter (\<lambda>t. t_source_bug_id t = Some bid) (test_cases d)"

text \<open>
  A sequence of \<open>POST /bugs/:id/convert\<close> on one bug id: each call has its own
  environment, actor and body, and runs on the tables the call before it left.
\<close>

fun convert_calls :: "(env \<times> user \<times> convert_body) list \<Rightarrow> uuid \<Rightarrow> db \<Rightarrow> db" where
  "convert_calls [] bid d = d"
| "convert_calls ((env, actor, body) # cs) bid d =
     convert_calls cs bid (snd (convertToTest env actor bid body d))"

text \<open>The rows a \<open>GET /tests\<close> answers with (none when the answer is an error).\<close>

definition listed_tests ::
  "(string \<Rightarrow> string \<Rightarrow> bool) \<Rightarrow> env \<Rightarrow> user \<Rightarrow> tests_query \<Rightarrow> db \<Rightarrow> test_case_row list" where
  "listed_tests ilike env actor q d =
     (case getTests ilike env actor q d of Inl e \<Rightarrow> [] | Inr (c, pg) \<Rightarrow> tests pg)"

section \<open>A concrete state\<close>

text \<open>
  Four verified users (a PM, two QA testers, an engineer) and a QA tester who registered
  but has not verified her address; an open bug, a converted bug and the test derived
  from it; an environment in which no call fails.
\<close>

definition pat :: user where
  "pat = \<lparr> u_id = ''user-pat'', u_email = ''pat@qualitysync.com'', u_name = ''Pat'', u_role = PM,
           u_is_verified = True, u_reset_password_token = None, u_reset_password_expires = None \<rparr>"

definition mike :: user where
  "mike = \<lparr> u_id = ''user-mike'', u_email = ''mike@qualitysync.com'', u_name = ''Mike'', u_role = QA,
            u_is_verified = True, u_reset_password_token = None, u_reset_password_expires = None \<rparr>"

definition nora :: user where
  "nora = \<lparr> u_id = ''user-nora'', u_email = ''nora@qualitysync.com'', u_name = ''Nora'', u_role = QA,
            u_is_verified = True, u_reset_password_token = None, u_reset_password_expires = None \<rparr>"

definition lisa :: user where
  "lisa = \<lparr> u_id = ''user-lisa'', u_email = ''lisa@qualitysync.com'', u_name = ''Lisa'', u_role = QA,
            u_is_verified = False, u_reset_password_token = None, u_reset_password_expires = None \<rparr>"

definition erin :: user where
  "erin = \<lparr> u_id = ''user-erin'', u_email = ''erin@qualitysync.com'', u_name = ''Erin'', u_role = ENG,
            u_is_verified = True, u_reset_password_token = None, u_reset_password_expires = None \<rparr>"

definition bug1 :: bug_row where
  "bug1 = \<lparr> b_id = ''bug-1'', b_module_platform = ''Checkout'', b_jam_link = ''https://jam.dev/c/1'',
            b_description = ''Total is wrong after removing an item'', b_note = None,
            b_severity = High, b_status = Open, b_created_by = ''user-mike'',
            b_converted_to_test_id = None, b_converted_at = None,
            b_created_at = 10, b_updated_at = 10 \<rparr>"

definition bug2 :: bug_row where
  "bug2 = \<lparr> b_id = ''bug-2'', b_module_platform = ''Login'', b_jam_link = ''https://jam.dev/c/2'',
            b_description = ''Login button stays disabled'', b_note = None,
            b_severity = Medium, b_status = Converted_to_test, b_created_by = ''user-mike'',
            b_converted_to_test_id = Some ''test-0'', b_converted_at = Some 30,
            b_created_at = 20, b_updated_at = 30 \<rparr>"

definition test0 :: test_case_row where
  "test0 = \<lparr> t_id = ''test-0'', t_module_platform = ''Login'',
             t_test_case = ''Fill both fields and press login'',
             t_expected_result = ''The button is enabled'', t_status = Pending,
             t_evidence_url = Some ''https://jam.dev/c/2'', t_notes = Some ''first run'',
             t_assigned_to = ''user-mike'', t_created_by = ''user-pat'',
             t_source_bug_id = Some ''bug-2'', t_created_at = 30, t_updated_at = 30 \<rparr>"

definition db0 :: db where
  "db0 = \<lparr> users = [pat, mike, nora, lisa, erin], test_cases = [test0],
           unlisted_bugs = [bug1, bug2] \<rparr>"

definition env0 :: env where
  "env0 = \<lparr> fails = (\<lambda>c. False), email_fails = False, now = 100, new_id = ''test-1'',
            random_token = ''token-1'' \<rparr>"

text \<open>The same environment, except that the update of \<open>unlisted_bugs\<close> returns an error.\<close>

definition env_update_fails :: env where
  "env_update_fails = env0\<lparr>fails := (\<lambda>c. c = UpdateUnlistedBugs)\<rparr>"

definition convert_to_mike :: convert_body where
  "convert_to_mike = \<lparr> cb_assigned_to = Some ''user-mike'',
                       cb_test_case = Some ''Remove an item and read the total'',
                       cb_expected_result = Some ''The total is the sum of the items left'' \<rparr>"

definition test1 :: test_case_row where
  "test1 = \<lparr> t_id = ''test-1'', t_module_platform = ''Checkout'',
             t_test_case = ''Remove an item and read the total'',
             t_expected_result = ''The total is the sum of the items left'', t_status = Pending,
             t_evidence_url = Some ''https://jam.dev/c/1'', t_notes = None,
             t_assigned_to = ''user-mike'', t_created_by = ''user-pat'',
             t_source_bug_id = Some ''bug-1'', t_created_at = 100, t_updated_at = 100 \<rparr>"

definition create_for_lisa :: create_test_body where
  "create_for_lisa = \<lparr> ct_module_platform = Some ''Checkout'',
                       ct_test_case = Some ''Add two items to the cart'',
                       ct_expected_result = Some ''The cart shows two items'',
                       ct_evidence_url = None, ct_assigned_to = Some ''user-lisa'' \<rparr>"


definition reopen :: update_bug_body where
  "reopen = \<lparr> ub_module_platform = None, ub_jam_link = None, ub_description = None,
              ub_note = None, ub_severity = None, ub_status = Some ''open'' \<rparr>"

definition q_all :: tests_query where
  "q_all = \<lparr> q_page = None, q_limit = None, q_status = None, q_module_platform = None,
             q_search = None, q_sort = None, q_order = None \<rparr>"

definition lib_no_url :: validator_lib where
  "lib_no_url = \<lparr> isURL = (\<lambda>s. False), isUUID = (\<lambda>s. True), trim = (\<lambda>s. s) \<rparr>"

definition evidence_only :: update_test_body where
  "evidence_only = \<lparr> ut_module_platform = None, ut_test_case = None, ut_expected_result = None,
                     ut_evidence_url = Some ''not a url jam.dev'', ut_assigned_to = None \<rparr>"

text \<open>The same tables with no bug at all.\<close>

definition db_no_bugs :: db where
  "db_no_bugs = db0\<lparr>unlisted_bugs := []\<rparr>"

text \<open>
  A validator library for the examples on \<open>trim\<close>: it accepts every URL and id, and its
  \<open>trim\<close> strips the blanks at both ends of a text.
\<close>

definition strip_blanks :: "string \<Rightarrow> string" where
  "strip_blanks s = rev (dropWhile (\<lambda>c. c = CHR '' '') (rev (dropWhile (\<lambda>c. c = CHR '' '') s)))"

definition lib_strip_blanks :: validator_lib where
  "lib_strip_blanks = \<lparr> isURL = (\<lambda>s. True), isUUID = (\<lambda>s. True), trim = strip_blanks \<rparr>"

definition result_with_notes :: "string \<Rightarrow> result_body" where
  "result_with_notes n = \<lparr> rb_status = Some ''fail'', rb_evidence_url = Some ''https://jam.dev/c/9'',
                           rb_notes = Some n \<rparr>"

section \<open>Lemmas on the persistence interface\<close>

lemma single_filter_SomeD:
  "single (filter P xs) = Some x \<Longrightarrow> x \<in> set xs \<and> P x"
proof -
  assume h: "single (filter P xs) = Some x"
  then have "filter P xs = [x]" by (cases "filter P xs" rule: single.cases) auto
  then have "x \<in> set (filter P xs)" by simp
  then show ?thesis by simp
qed

lemma select_single_SomeD:
  "select_single env c (filter P xs) = Some x \<Longrightarrow> x \<in> set xs \<and> P x"
  by (auto simp: select_single_def dest: single_filter_SomeD split: if_splits)

lemma insert_test_cases_Some:
  "insert_test_cases env ins d = (Some row, d1) \<Longrightarrow>
     d1 = d\<lparr>test_cases := test_cases d @ [row]\<rparr> \<and>
     t_id row = new_id env \<and> t_status row = Pending \<and>
     Some (t_module_platform row) = ins_module_platform ins \<and>
     t_evidence_url row = ins_evidence_url ins \<and>
     t_created_by row = ins_created_by ins \<and>
     t_source_bug_id row = ins_source_bug_id ins \<and>
     Some (t_assigned_to row) = ins_assigned_to ins"
  by (auto simp: insert_test_cases_def Let_def split: option.splits if_splits)

lemma insert_test_cases_None:
  "insert_test_cases env ins d = (None, d1) \<Longrightarrow> d1 = d"
  by (auto simp: insert_test_cases_def Let_def split: option.splits if_splits)

section \<open>Conversion of a bug into a test case\<close>

lemma mark_converted_ids: "map b_id (mark_converted env bid tid bugs) = map b_id bugs"
  unfolding mark_converted_def by (induction bugs) simp_all

lemma mark_converted_hit:
  assumes upd: "\<not> fails env UpdateUnlistedBugs"
      and mem: "b \<in> set (mark_converted env bid tid bugs)"
      and hit: "b_id b = bid"
  shows "b_status b = Converted_to_test \<and> b_converted_to_test_id b = Some tid \<and>
         b_converted_at b = Some (now env)"
proof -
  from upd mem obtain x where
    b: "b = (if b_id x = bid
             then x\<lparr>b_status := Converted_to_test, b_converted_to_test_id := Some tid,
                    b_converted_at := Some (now env), b_updated_at := now env\<rparr>
             else x)"
    unfolding mark_converted_def by (simp only: if_False set_map) blast
  show ?thesis
  proof (cases "b_id x = bid")
    case True
    with b show ?thesis by simp
  next
    case False
    with b have "b = x" by simp
    with hit False show ?thesis by simp
  qed
qed

lemma mark_converted_keeps_row:
  assumes "x \<in> set bugs" and "b_id x = bid"
  shows "\<exists>b \<in> set (mark_converted env bid tid bugs). b_id b = bid"
proof -
  from assms have "bid \<in> set (map b_id bugs)" by force
  then have "bid \<in> set (map b_id (mark_converted env bid tid bugs))"
    by (simp only: mark_converted_ids)
  then show ?thesis by auto
qed

lemma convertToTest_InrD:
  assumes "convertToTest env actor bid body d = (Inr (c, t), d')"
  shows "\<exists>bug assignee.
           select_single env SelectUnlistedBugs (filter (\<lambda>b. b_id b = bid) (unlisted_bugs d)) = Some bug \<and>
           b_status bug \<noteq> Converted_to_test \<and>
           select_single env SelectUsers
             (filter (\<lambda>u. Some (u_id u) = cb_assigned_to body) (users d)) = Some assignee \<and>
           u_role assignee = QA \<and> c = 201 \<and>
           insert_test_cases env
             \<lparr> ins_module_platform = Some (b_module_platform bug),
               ins_test_case = cb_test_case body,
               ins_expected_result = cb_expected_result body,
               ins_evidence_url = Some (b_jam_link bug),
               ins_assigned_to = cb_assigned_to body,
               ins_created_by = u_id actor,
               ins_source_bug_id = Some (b_id bug) \<rparr> d
             = (Some t, d\<lparr>test_cases := test_cases d @ [t]\<rparr>) \<and>
           d' = d\<lparr>test_cases := test_cases d @ [t],
                  unlisted_bugs := mark_converted env bid (t_id t) (unlisted_bugs d)\<rparr>"
  using assms
  apply (simp add: convertToTest_def split: option.splits if_splits prod.splits)
  apply (elim conjE)
  apply (frule insert_test_cases_Some)
  apply simp
  done

text \<open>
  What an answer of success says about the tables. The answer is a 201 and the created
  test case is the row appended to \<open>test_cases\<close>; its \<open>module_platform\<close> is the
  bug's, its \<open>evidence_url\<close> is the bug's \<open>jam_link\<close>, its status is \<open>pending\<close>, its
  \<open>source_bug_id\<close> is the bug's id and its \<open>created_by\<close> is the acting user's id; the
  bug is still in the table. Only when the update of the bug has taken effect does every
  row with the bug's id have status \<open>converted_to_test\<close>, \<open>converted_to_test_id\<close> the
  id of the new test and \<open>converted_at\<close> the time of the call.
\<close>

lemma convertToTest_success_fields:
  assumes ok: "convertToTest env actor bid body d = (Inr (c, t), d')"
  shows "c = 201 \<and>
         (\<exists>bug \<in> set (unlisted_bugs d). b_id bug = bid \<and>
            t_module_platform t = b_module_platform bug \<and>
            t_evidence_url t = Some (b_jam_link bug) \<and>
            t_source_bug_id t = Some (b_id bug)) \<and>
         t_status t = Pending \<and> t_created_by t = u_id actor \<and>
         test_cases d' = test_cases d @ [t] \<and>
         (\<exists>b \<in> set (unlisted_bugs d'). b_id b = bid) \<and>
         (\<not> fails env UpdateUnlistedBugs \<longrightarrow>
            (\<forall>b \<in> set (unlisted_bugs d'). b_id b = bid \<longrightarrow>
               b_status b = Converted_to_test \<and> b_converted_to_test_id b = Some (t_id t) \<and>
               b_converted_at b = Some (now env)))"
proof -
  from convertToTest_InrD [OF ok] obtain bug assignee where
    sel: "select_single env SelectUnlistedBugs (filter (\<lambda>b. b_id b = bid) (unlisted_bugs d)) = Some bug"
    and nc: "b_status bug \<noteq> Converted_to_test"
    and asg: "select_single env SelectUsers
             (filter (\<lambda>u. Some (u_id u) = cb_assigned_to body) (users d)) = Some assignee"
    and qa: "u_role assignee = QA"
    and c: "c = 201"
    and ins: "insert_test_cases env
             \<lparr> ins_module_platform = Some (b_module_platform bug),
               ins_test_case = cb_test_case body,
               ins_expected_result = cb_expected_result body,
               ins_evidence_url = Some (b_jam_link bug),
               ins_assigned_to = cb_assigned_to body,
               ins_created_by = u_id actor,
               ins_source_bug_id = Some (b_id bug) \<rparr> d
             = (Some t, d\<lparr>test_cases := test_cases d @ [t]\<rparr>)"
    and d': "d' = d\<lparr>test_cases := test_cases d @ [t],
                  unlisted_bugs := mark_converted env bid (t_id t) (unlisted_bugs d)\<rparr>"
    by (elim exE conjE)
  from select_single_SomeD [OF sel] have bug: "bug \<in> set (unlisted_bugs d)" "b_id bug = bid"
    by simp_all
  from insert_test_cases_Some [OF ins] have t:
    "t_module_platform t = b_module_platform bug" "t_evidence_url t = Some (b_jam_link bug)"
    "t_source_bug_id t = Some (b_id bug)" "t_status t = Pending" "t_created_by t = u_id actor"
    by simp_all
  have bugs': "unlisted_bugs d' = mark_converted env bid (t_id t) (unlisted_bugs d)"
    and tests': "test_cases d' = test_cases d @ [t]"
    by (simp_all add: d')
  have ex: "\<exists>b \<in> set (unlisted_bugs d'). b_id b = bid"
    unfolding bugs' by (rule mark_converted_keeps_row [OF bug])
  have all: "\<not> fails env UpdateUnlistedBugs \<longrightarrow>
            (\<forall>b \<in> set (unlisted_bugs d'). b_id b = bid \<longrightarrow>
               b_status b = Converted_to_test \<and> b_converted_to_test_id b = Some (t_id t) \<and>
               b_converted_at b = Some (now env))"
    unfolding bugs' by (intro ballI impI) (rule mark_converted_hit)
  have bx: "\<exists>bug \<in> set (unlisted_bugs d). b_id bug = bid \<and>
            t_module_platform t = b_module_platform bug \<and>
            t_evidence_url t = Some (b_jam_link bug) \<and>
            t_source_bug_id t = Some (b_id bug)"
    using bug t by (intro bexI [of _ bug]) simp_all
  show ?thesis
    using c bx t(4,5) tests' ex all by (intro conjI)
qed


lemmas scenario_defs =
  db0_def env0_def env_update_fails_def pat_def mike_def nora_def lisa_def erin_def
  bug1_def bug2_def test0_def test1_def convert_to_mike_def

lemmas convert_defs =
  convertToTest_def select_single_def insert_test_cases_def mark_converted_def Let_def

lemma eval_convert_ok:
  "convertToTest env0 pat ''bug-1'' convert_to_mike db0 =
     (Inr (201, test1),
      db0\<lparr>test_cases := [test0, test1],
          unlisted_bugs :=
            [bug1\<lparr>b_status := Converted_to_test, b_converted_to_test_id := Some ''test-1'',
                  b_converted_at := Some 100, b_updated_at := 100\<rparr>, bug2]\<rparr>)"
  by (simp add: convert_defs scenario_defs)

lemma convertToTest_error_keeps_db:
  assumes "convertToTest env actor bid body d = (Inl e, d')"
  shows "d' = d"
  using assms
  by (auto simp: convertToTest_def split: option.splits if_splits prod.splits
           dest: insert_test_cases_None)

lemma convertToTest_guard:
  assumes "select_single env SelectUnlistedBugs (filter (\<lambda>b. b_id b = bid) (unlisted_bugs d)) = Some bug"
      and "b_status bug = Converted_to_test"
  shows "convertToTest env actor bid body d =
           (Inl (ApiError 400 ''This bug has already been converted to a test case''), d)"
  using assms by (simp add: convertToTest_def)

lemma eval_convert_update_fails:
  "convertToTest env_update_fails pat ''bug-1'' convert_to_mike db0 =
     (Inr (201, test1), db0\<lparr>test_cases := [test0, test1]\<rparr>)"
  by (simp add: convert_defs scenario_defs)

text \<open>
  Claim C2 asks that a conversion whose bug update fails after the test case was created
  does not leave an unconverted bug beside a test case derived from it. The first half
  of the claim holds (\<open>convertToTest_error_keeps_db\<close>: an answer that is an error,
  the failed insert among them, leaves every table as it was). The second half does not:
  in the state \<open>db0\<close>, when the update of \<open>unlisted_bugs\<close> returns an error, the
  handler answers 201, the bug \<open>bug-1\<close> is still open with no
  \<open>converted_to_test_id\<close>, and the new test case with \<open>source_bug_id = bug-1\<close> is in
  the table.
\<close>

theorem convertToTest_unchecked_update_leaves_orphan:
  "fst (convertToTest env_update_fails pat ''bug-1'' convert_to_mike db0) = Inr (201, test1)
   \<and> unlisted_bugs (snd (convertToTest env_update_fails pat ''bug-1'' convert_to_mike db0)) = [bug1, bug2]
   \<and> b_status bug1 = Open \<and> b_converted_to_test_id bug1 = None
   \<and> test_cases (snd (convertToTest env_update_fails pat ''bug-1'' convert_to_mike db0)) = [test0, test1]
   \<and> t_source_bug_id test1 = Some (b_id bug1)"
  unfolding eval_convert_update_fails
  by (simp add: scenario_defs)

text \<open>
  Claim C1 asks that over any sequence of conversion calls on one bug id at most one test
  case is created from it. The guard itself works (\<open>convertToTest_guard\<close>), and the
  bound holds for every sequence in which the update of the bug takes effect
  (\<open>convert_calls_at_most_one\<close>, below). It fails when that update returns an
  error, which the handler does not look at: the first call answers 201 and leaves the
  bug open, the second call passes the guard and answers 201 again, and two test cases
  derived from \<open>bug-1\<close> are in the table.
\<close>

theorem convertToTest_twice_creates_two_tests:
  "fst (convertToTest env_update_fails pat ''bug-1'' convert_to_mike db0) = Inr (201, test1)
   \<and> fst (convertToTest (env0\<lparr>new_id := ''test-2''\<rparr>) pat ''bug-1'' convert_to_mike
            (snd (convertToTest env_update_fails pat ''bug-1'' convert_to_mike db0)))
       = Inr (201, test1\<lparr>t_id := ''test-2''\<rparr>)
   \<and> tests_from_bug ''bug-1''
         (convert_calls [(env_update_fails, pat, convert_to_mike),
                         (env0\<lparr>new_id := ''test-2''\<rparr>, pat, convert_to_mike)] ''bug-1'' db0)
       = [test1, test1\<lparr>t_id := ''test-2''\<rparr>]"
  unfolding convert_calls.simps eval_convert_update_fails
  by (simp add: convert_defs scenario_defs tests_from_bug_def)


text \<open>
  Claim C3 says that after every successful conversion the created test case has the
  bug's \<open>module_platform\<close> and evidence link, status \<open>pending\<close>, the bug's id as
  \<open>source_bug_id\<close> and the acting PM as \<open>created_by\<close>, and that the bug ends with
  status \<open>converted_to_test\<close>, \<open>converted_to_test_id\<close> the id of the new test and
  \<open>converted_at\<close> set. The half on the test case holds for every answer of success
  (\<open>convertToTest_success_fields\<close>). The half on the bug does not: when the update of
  \<open>unlisted_bugs\<close> returns an error, the handler still answers 201 with the new test
  case, whose five fields are as claimed, and the one row of \<open>bug-1\<close> is left with
  status \<open>open\<close>, no \<open>converted_to_test_id\<close> and no \<open>converted_at\<close>.
\<close>

theorem convertToTest_answers_201_bug_left_open:
  "convertToTest env_update_fails pat ''bug-1'' convert_to_mike db0
     = (Inr (201, test1), db0\<lparr>test_cases := [test0, test1]\<rparr>)
   \<and> t_module_platform test1 = b_module_platform bug1
   \<and> t_evidence_url test1 = Some (b_jam_link bug1)
   \<and> t_status test1 = Pending
   \<and> t_source_bug_id test1 = Some (b_id bug1)
   \<and> t_created_by test1 = u_id pat
   \<and> filter (\<lambda>b. b_id b = ''bug-1'') (unlisted_bugs (db0\<lparr>test_cases := [test0, test1]\<rparr>)) = [bug1]
   \<and> b_status bug1 = Open
   \<and> b_converted_to_test_id bug1 = None
   \<and> b_converted_at bug1 = None"
  using eval_convert_update_fails by (simp add: scenario_defs)

lemma convertToTest_converted_noop:
  assumes conv: "\<forall>b \<in> set (unlisted_bugs d). b_id b = bid \<longrightarrow> b_status b = Converted_to_test"
  shows "\<exists>e. convertToTest env actor bid body d = (Inl e, d)"
proof (cases "select_single env SelectUnlistedBugs (filter (\<lambda>b. b_id b = bid) (unlisted_bugs d))")
  case None
  then show ?thesis by (simp add: convertToTest_def)
next
  case (Some bug)
  from select_single_SomeD [OF Some] conv have "b_status bug = Converted_to_test" by blast
  from convertToTest_guard [OF Some this] show ?thesis by blast
qed

lemma convertToTest_step:
  assumes upd: "\<not> fails env UpdateUnlistedBugs"
      and run: "convertToTest env actor bid body d = (r, d')"
  shows "d' = d \<or>
         (length (tests_from_bug bid d') = Suc (length (tests_from_bug bid d)) \<and>
          (\<forall>b \<in> set (unlisted_bugs d'). b_id b = bid \<longrightarrow> b_status b = Converted_to_test))"
proof (cases r)
  case (Inl e)
  with run convertToTest_error_keeps_db show ?thesis by blast
next
  case (Inr ct)
  obtain c t where ct: "ct = (c, t)" by (cases ct)
  from run Inr ct have ok: "convertToTest env actor bid body d = (Inr (c, t), d')" by simp
  from convertToTest_InrD [OF ok] obtain bug assignee where
    sel: "select_single env SelectUnlistedBugs (filter (\<lambda>b. b_id b = bid) (unlisted_bugs d)) = Some bug"
    and nc: "b_status bug \<noteq> Converted_to_test"
    and asg: "select_single env SelectUsers
             (filter (\<lambda>u. Some (u_id u) = cb_assigned_to body) (users d)) = Some assignee"
    and qa: "u_role assignee = QA"
    and c: "c = 201"
    and ins: "insert_test_cases env
             \<lparr> ins_module_platform = Some (b_module_platform bug),
               ins_test_case = cb_test_case body,
               ins_expected_result = cb_expected_result body,
               ins_evidence_url = Some (b_jam_link bug),
               ins_assigned_to = cb_assigned_to body,
               ins_created_by = u_id actor,
               ins_source_bug_id = Some (b_id bug) \<rparr> d
             = (Some t, d\<lparr>test_cases := test_cases d @ [t]\<rparr>)"
    and d': "d' = d\<lparr>test_cases := test_cases d @ [t],
                  unlisted_bugs := mark_converted env bid (t_id t) (unlisted_bugs d)\<rparr>"
    by (elim exE conjE)
  from select_single_SomeD [OF sel] have bid: "b_id bug = bid" by simp
  from insert_test_cases_Some [OF ins] bid have src: "t_source_bug_id t = Some bid" by simp
  have len: "length (tests_from_bug bid d') = Suc (length (tests_from_bug bid d))"
    by (simp add: tests_from_bug_def d' src)
  have bugs': "unlisted_bugs d' = mark_converted env bid (t_id t) (unlisted_bugs d)"
    by (simp add: d')
  have "\<forall>b \<in> set (unlisted_bugs d'). b_id b = bid \<longrightarrow> b_status b = Converted_to_test"
    unfolding bugs' using mark_converted_hit [OF upd] by blast
  with len show ?thesis by blast
qed

lemma convert_calls_converted_noop:
  assumes "\<forall>b \<in> set (unlisted_bugs d). b_id b = bid \<longrightarrow> b_status b = Converted_to_test"
  shows "convert_calls cs bid d = d"
  using assms
proof (induction cs)
  case Nil
  then show ?case by simp
next
  case (Cons call cs)
  obtain env actor body where call: "call = (env, actor, body)" by (cases call)
  from convertToTest_converted_noop [OF Cons.prems] obtain e where
    "convertToTest env actor bid body d = (Inl e, d)" by blast
  then have "convert_calls (call # cs) bid d = convert_calls cs bid d"
    by (simp add: call)
  with Cons show ?case by simp
qed

lemma convert_calls_at_most_one:
  assumes "\<forall>call \<in> set cs. \<not> fails (fst call) UpdateUnlistedBugs"
  shows "length (tests_from_bug bid (convert_calls cs bid d)) \<le> Suc (length (tests_from_bug bid d))"
  using assms
proof (induction cs arbitrary: d)
  case Nil
  then show ?case by simp
next
  case (Cons call cs)
  obtain env actor body where call: "call = (env, actor, body)" by (cases call)
  obtain r d' where run: "convertToTest env actor bid body d = (r, d')"
    by (cases "convertToTest env actor bid body d")
  from Cons.prems call have upd: "\<not> fails env UpdateUnlistedBugs" by simp
  have rest: "convert_calls (call # cs) bid d = convert_calls cs bid d'"
    by (simp add: call run)
  from Cons.prems have prems': "\<forall>call \<in> set cs. \<not> fails (fst call) UpdateUnlistedBugs" by simp
  from convertToTest_step [OF upd run] show ?case
  proof
    assume "d' = d"
    with rest Cons.IH [OF prems', of d] show ?thesis by simp
  next
    assume new: "length (tests_from_bug bid d') = Suc (length (tests_from_bug bid d)) \<and>
          (\<forall>b \<in> set (unlisted_bugs d'). b_id b = bid \<longrightarrow> b_status b = Converted_to_test)"
    then have "convert_calls cs bid d' = d'" by (intro convert_calls_converted_noop) blast
    with rest new show ?thesis by simp
  qed
qed

section \<open>Who may be assigned a test case\<close>

text \<open>
  Claim C4 says that test creation and bug conversion answer 400 whenever \<open>assigned_to\<close>
  is not a verified QA user. Both handlers read the assignee's \<open>id, name, email, role\<close>
  and test the role only. Lisa is a QA tester with \<open>is_verified = false\<close>; a test
  created for her and a bug converted for her are both answered with 201.
\<close>

theorem unverified_QA_assignee_accepted:
  "u_role lisa = QA \<and> u_is_verified lisa = False
   \<and> fst (createTest env0 pat create_for_lisa db0)
       = Inr (201, \<lparr> t_id = ''test-1'', t_module_platform = ''Checkout'',
                     t_test_case = ''Add two items to the cart'',
                     t_expected_result = ''The cart shows two items'', t_status = Pending,
                     t_evidence_url = None, t_notes = None,
                     t_assigned_to = ''user-lisa'', t_created_by = ''user-pat'',
                     t_source_bug_id = None, t_created_at = 100, t_updated_at = 100 \<rparr>)
   \<and> fst (convertToTest env0 pat ''bug-1'' (convert_to_mike\<lparr>cb_assigned_to := Some ''user-lisa''\<rparr>) db0)
       = Inr (201, test1\<lparr>t_assigned_to := ''user-lisa''\<rparr>)"
  by (simp add: createTest_def create_for_lisa_def or_null_def convert_defs scenario_defs)

text \<open>
  Claim C4 as amended: test creation and bug conversion answer 400 and write nothing
  whenever \<open>assigned_to\<close> is not the id of a user whose role is QA (verified or not);
  for a conversion the lookup of the bug comes first, so the answer is that of the bug
  (404 when it is not found, 400 when it is already converted) when there is one.
\<close>

theorem assignee_must_be_QA:
  assumes "\<forall>u \<in> set (users d). Some (u_id u) = a \<longrightarrow> u_role u \<noteq> QA"
  shows "(ct_assigned_to cbody = a \<longrightarrow>
            (\<exists>m. createTest env actor cbody d = (Inl (ApiError 400 m), d))) \<and>
         (cb_assigned_to vbody = a \<longrightarrow>
            (\<exists>c m. convertToTest env actor bid vbody d = (Inl (ApiError c m), d)
                    \<and> (c = 400 \<or> c = 404 \<and> select_single env SelectUnlistedBugs
                            (filter (\<lambda>b. b_id b = bid) (unlisted_bugs d)) = None)))"
proof (intro conjI impI)
  assume a: "ct_assigned_to cbody = a"
  show "\<exists>m. createTest env actor cbody d = (Inl (ApiError 400 m), d)"
  proof (cases "select_single env SelectUsers (filter (\<lambda>u. Some (u_id u) = ct_assigned_to cbody) (users d))")
    case None
    then show ?thesis by (simp add: createTest_def)
  next
    case (Some assignee)
    from select_single_SomeD [OF Some] a assms have "u_role assignee \<noteq> QA" by blast
    with Some show ?thesis by (simp add: createTest_def)
  qed
next
  assume a: "cb_assigned_to vbody = a"
  show "\<exists>c m. convertToTest env actor bid vbody d = (Inl (ApiError c m), d)
                    \<and> (c = 400 \<or> c = 404 \<and> select_single env SelectUnlistedBugs
                            (filter (\<lambda>b. b_id b = bid) (unlisted_bugs d)) = None)"
  proof (cases "select_single env SelectUnlistedBugs (filter (\<lambda>b. b_id b = bid) (unlisted_bugs d))")
    case None
    then show ?thesis by (simp add: convertToTest_def)
  next
    case bug: (Some bug)
    show ?thesis
    proof (cases "select_single env SelectUsers (filter (\<lambda>u. Some (u_id u) = cb_assigned_to vbody) (users d))")
      case None
      with bug show ?thesis by (simp add: convertToTest_def)
    next
      case (Some assignee)
      from select_single_SomeD [OF Some] a assms have "u_role assignee \<noteq> QA" by blast
      with Some bug show ?thesis by (simp add: convertToTest_def)
    qed
  qed
qed

theorem assignee_must_be_QA_witness:
  "map u_role (filter (\<lambda>u. Some (u_id u) = Some ''user-erin'') (users db0)) = [ENG]
   \<and> (\<exists>m. createTest env0 pat (create_for_lisa\<lparr>ct_assigned_to := Some ''user-erin''\<rparr>) db0
            = (Inl (ApiError 400 m), db0))
   \<and> (\<exists>m. convertToTest env0 pat ''bug-1'' (convert_to_mike\<lparr>cb_assigned_to := Some ''user-erin''\<rparr>) db0
            = (Inl (ApiError 400 m), db0))"
proof -
  have h: "\<forall>u \<in> set (users db0). Some (u_id u) = Some ''user-erin'' \<longrightarrow> u_role u \<noteq> QA"
    by (simp add: scenario_defs)
  have b: "select_single env0 SelectUnlistedBugs (filter (\<lambda>b. b_id b = ''bug-1'') (unlisted_bugs db0))
           \<noteq> None"
    by (simp add: select_single_def scenario_defs)
  have e: "map u_role (filter (\<lambda>u. Some (u_id u) = Some ''user-erin'') (users db0)) = [ENG]"
    by (simp add: scenario_defs)
  from assignee_must_be_QA [OF h, where cbody = "create_for_lisa\<lparr>ct_assigned_to := Some ''user-erin''\<rparr>"
         and vbody = "convert_to_mike\<lparr>cb_assigned_to := Some ''user-erin''\<rparr>"
         and env = env0 and actor = pat and bid = "''bug-1''"] b e
  show ?thesis by auto
qed

section \<open>Updating a bug\<close>





lemma updateBug_validation_reopen: "updateBug_validation lib reopen = []"
  by (simp add: updateBug_validation_def optional_def check_def str_def reopen_def)




section \<open>Reading one test case or one bug\<close>

text \<open>
  Claim C6 says that a QA tester asking for a test case assigned to somebody else, an
  engineer asking for a test case that is neither failed nor escalated, and a QA tester
  asking for somebody else's bug are answered 404, as for an id that does not exist.
  Both handlers answer such a request with an explicit 403 and a message of its own;
  only an id that is not found is answered 404.
\<close>

theorem non_owner_read_is_403_not_404:
  "getTest env0 nora ''test-0'' db0 = Inl (ApiError 403 ''You do not have access to this test case'')
   \<and> getTest env0 erin ''test-0'' db0
       = Inl (ApiError 403 ''You can only view failed or escalated test cases'')
   \<and> getBug env0 nora ''bug-1'' db0 = Inl (ApiError 403 ''You do not have access to this bug'')
   \<and> getTest env0 nora ''test-9'' db0 = Inl (ApiError 404 ''Test case not found'')
   \<and> getBug env0 nora ''bug-9'' db0 = Inl (ApiError 404 ''Bug not found'')"
  by (simp add: getTest_def getBug_def select_single_def scenario_defs)

text \<open>
  Claim C6 as amended. When the row exists (one row of the table has the id) and the
  select returns no error, a QA tester who is not the assignee of the test case, an
  engineer when the test case is neither failed nor escalated, and a QA tester who did
  not create the bug are answered Forbidden (403), each with its own message. NotFound
  (404) is the answer when no row has the id or the select returns an error. So for a
  select that works, 403 tells that the row exists and 404 that it does not. The
  statements on test cases ask nothing of the table of bugs, and conversely.
\<close>

theorem non_owner_read_is_forbidden:
  "(\<not> fails env SelectTestCases \<and> filter (\<lambda>t. t_id t = tid) (test_cases d) = [t]
      \<and> u_role actor = QA \<and> t_assigned_to t \<noteq> u_id actor \<longrightarrow>
        getTest env actor tid d = Inl (ApiError 403 ''You do not have access to this test case''))
   \<and> (\<not> fails env SelectTestCases \<and> filter (\<lambda>t. t_id t = tid) (test_cases d) = [t]
      \<and> u_role actor = ENG \<and> t_status t \<noteq> Fail \<and> t_status t \<noteq> Escalated \<longrightarrow>
        getTest env actor tid d
          = Inl (ApiError 403 ''You can only view failed or escalated test cases''))
   \<and> (\<not> fails env SelectUnlistedBugs \<and> filter (\<lambda>b. b_id b = bid) (unlisted_bugs d) = [b]
      \<and> u_role actor = QA \<and> b_created_by b \<noteq> u_id actor \<longrightarrow>
        getBug env actor bid d = Inl (ApiError 403 ''You do not have access to this bug''))
   \<and> (fails env SelectTestCases \<or> filter (\<lambda>t. t_id t = tid) (test_cases d) = [] \<longrightarrow>
        getTest env actor tid d = Inl (ApiError 404 ''Test case not found''))
   \<and> (fails env SelectUnlistedBugs \<or> filter (\<lambda>b. b_id b = bid) (unlisted_bugs d) = [] \<longrightarrow>
        getBug env actor bid d = Inl (ApiError 404 ''Bug not found''))"
  by (auto simp: getTest_def getBug_def select_single_def)

theorem non_owner_read_is_forbidden_witness:
  "fails env0 SelectTestCases = False
   \<and> filter (\<lambda>t. t_id t = ''test-0'') (test_cases db_no_bugs) = [test0]
   \<and> u_role nora = QA \<and> t_assigned_to test0 = ''user-mike'' \<and> u_id nora = ''user-nora''
   \<and> getTest env0 nora ''test-0'' db_no_bugs
       = Inl (ApiError 403 ''You do not have access to this test case'')
   \<and> u_role erin = ENG \<and> t_status test0 = Pending
   \<and> getTest env0 erin ''test-0'' db_no_bugs
       = Inl (ApiError 403 ''You can only view failed or escalated test cases'')
   \<and> fails env0 SelectUnlistedBugs = False
   \<and> filter (\<lambda>b. b_id b = ''bug-1'') (unlisted_bugs db0) = [bug1]
   \<and> b_created_by bug1 = ''user-mike''
   \<and> getBug env0 nora ''bug-1'' db0 = Inl (ApiError 403 ''You do not have access to this bug'')
   \<and> filter (\<lambda>b. b_id b = ''bug-1'') (unlisted_bugs db_no_bugs) = []
   \<and> getBug env0 nora ''bug-1'' db_no_bugs = Inl (ApiError 404 ''Bug not found'')
   \<and> getTest (env0\<lparr>fails := (\<lambda>c. c = SelectTestCases)\<rparr>) nora ''test-0'' db0
       = Inl (ApiError 404 ''Test case not found'')"
proof -
  have f: "fails env0 SelectTestCases = False" "fails env0 SelectUnlistedBugs = False"
    "fails (env0\<lparr>fails := (\<lambda>c. c = SelectTestCases)\<rparr>) SelectTestCases"
    by (simp_all add: env0_def)
  have rows: "filter (\<lambda>t. t_id t = ''test-0'') (test_cases db_no_bugs) = [test0]"
    "filter (\<lambda>b. b_id b = ''bug-1'') (unlisted_bugs db0) = [bug1]"
    "filter (\<lambda>b. b_id b = ''bug-1'') (unlisted_bugs db_no_bugs) = []"
    by (simp_all add: db_no_bugs_def scenario_defs)
  have facts: "u_role nora = QA" "t_assigned_to test0 = ''user-mike''" "u_id nora = ''user-nora''"
    "u_role erin = ENG" "t_status test0 = Pending" "b_created_by bug1 = ''user-mike''"
    by (simp_all add: scenario_defs)
  from non_owner_read_is_forbidden [of env0 "''test-0''" db_no_bugs test0 nora "''bug-1''" bug1]
       non_owner_read_is_forbidden [of env0 "''test-0''" db_no_bugs test0 erin "''bug-1''" bug1]
       non_owner_read_is_forbidden [of env0 "''test-0''" db0 test0 nora "''bug-1''" bug1]
       non_owner_read_is_forbidden [of "env0\<lparr>fails := (\<lambda>c. c = SelectTestCases)\<rparr>" "''test-0''" db0 test0 nora "''bug-1''" bug1]
       f rows facts
  show ?thesis by simp
qed

section \<open>The list of test cases of a QA tester\<close>

lemma set_order_tests: "set (order_tests sortField ascending rows) = set rows"
  by (simp add: order_tests_def Let_def)

lemma set_filter_tests: "set (filter_tests ilike q rows) \<subseteq> set rows"
  by (auto simp: filter_tests_def Let_def split: option.splits if_splits)

lemma filter_tests_no_filter:
  assumes "q_status q = None" and "q_module_platform q = None" and "q_search q = None"
  shows "filter_tests ilike q rows = rows"
  using assms by (simp add: filter_tests_def)

lemma set_scope_tests_QA:
  assumes "u_role u = QA"
  shows "set (scope_tests u rows) = {t \<in> set rows. t_assigned_to t = u_id u}"
  using assms by (auto simp: scope_tests_def)

lemma in_some_page:
  assumes x: "x \<in> set xs" and l: "0 < l"
  shows "\<exists>p. 0 < p \<and> x \<in> set (take l (drop ((p - 1) * l) xs))"
proof -
  from x obtain i where i: "i < length xs" and xi: "xs ! i = x"
    by (auto simp: in_set_conv_nth)
  let ?o = "(i div l) * l"
  have le: "?o \<le> i" by (metis div_times_less_eq_dividend)
  have split: "?o + i mod l = i" by (simp add: mult.commute)
  have m: "i mod l < l" using l by simp
  have "?o + i mod l < length xs" using i split by simp
  then have "i mod l < length xs - ?o" by arith
  then have len: "i mod l < length (drop ?o xs)" by simp
  have "?o \<le> length xs" using i le by linarith
  then have "drop ?o xs ! (i mod l) = xs ! (?o + i mod l)"
    by (rule nth_drop)
  with split xi have nth: "drop ?o xs ! (i mod l) = x" by simp
  have "take l (drop ?o xs) ! (i mod l) = x" using m nth by simp
  moreover have "i mod l < length (take l (drop ?o xs))" using m len by simp
  ultimately have "x \<in> set (take l (drop ?o xs))" by (metis nth_mem)
  then have "x \<in> set (take l (drop ((Suc (i div l) - 1) * l) xs))" by simp
  then show ?thesis by (intro exI [of _ "Suc (i div l)"]) simp
qed

lemma listed_tests_subset:
  "set (listed_tests ilike env u q d) \<subseteq> set (scope_tests u (test_cases d))"
proof -
  have "set (listed_tests ilike env u q d)
        \<subseteq> set (filter_tests ilike q (scope_tests u (test_cases d)))"
    by (auto simp: listed_tests_def getTests_def Let_def set_order_tests
             dest!: in_set_takeD in_set_dropD)
  with set_filter_tests show ?thesis by blast
qed

lemma listed_tests_page:
  assumes "\<not> fails env SelectTestCases"
      and "q_status q = None" and "q_module_platform q = None" and "q_search q = None"
  shows "\<exists>sortField ascending l. 0 < l \<and>
           (\<forall>p'. 0 < p' \<longrightarrow>
              listed_tests ilike env u (q\<lparr>q_page := Some p'\<rparr>) d
                = take l (drop ((p' - 1) * l)
                    (order_tests sortField ascending (scope_tests u (test_cases d)))))"
proof -
  define l where "l = (case q_limit q of Some l \<Rightarrow> if l = 0 then 10 else l | None \<Rightarrow> 10)"
  define sort where "sort = (case q_sort q of Some s \<Rightarrow> s | None \<Rightarrow> ''created_at'')"
  define sortField where
    "sortField = (if sort \<in> set [''created_at'', ''updated_at'', ''status'', ''module_platform'']
                  then sort else ''created_at'')"
  define ascending where "ascending = ((case q_order q of Some s \<Rightarrow> s | None \<Rightarrow> ''desc'') = ''asc'')"
  have l: "0 < l" by (simp add: l_def split: option.splits)
  have "listed_tests ilike env u (q\<lparr>q_page := Some p'\<rparr>) d
          = take l (drop ((p' - 1) * l)
              (order_tests sortField ascending (scope_tests u (test_cases d))))"
    if "0 < p'" for p'
    using that assms
    by (simp add: listed_tests_def getTests_def Let_def filter_tests_no_filter
          l_def sort_def sortField_def ascending_def)
  with l show ?thesis by blast
qed

text \<open>
  Claim C7. For a QA tester \<open>u\<close> whose list query is answered (the select returns no
  error): every row of every answer of \<open>GET /tests\<close>, whatever the query string, is a
  test case assigned to \<open>u\<close>; and with no \<open>status\<close>, \<open>module_platform\<close> or
  \<open>search\<close> filter, a test case is on some page of the list if and only if it is in the
  table and assigned to \<open>u\<close>.
\<close>

theorem QA_list_is_own_tests:
  assumes qa: "u_role u = QA"
      and ok: "\<not> fails env SelectTestCases"
  shows "(\<forall>q'. \<forall>t \<in> set (listed_tests ilike env u q' d).
            t \<in> set (test_cases d) \<and> t_assigned_to t = u_id u)
       \<and> (q_status q = None \<and> q_module_platform q = None \<and> q_search q = None \<longrightarrow>
            ((\<exists>p. 0 < p \<and> t \<in> set (listed_tests ilike env u (q\<lparr>q_page := Some p\<rparr>) d))
               \<longleftrightarrow> t \<in> set (test_cases d) \<and> t_assigned_to t = u_id u))"
proof (rule conjI)
  show "\<forall>q'. \<forall>t \<in> set (listed_tests ilike env u q' d).
            t \<in> set (test_cases d) \<and> t_assigned_to t = u_id u"
  proof (intro allI ballI)
    fix q' t'
    assume "t' \<in> set (listed_tests ilike env u q' d)"
    with listed_tests_subset have "t' \<in> set (scope_tests u (test_cases d))" by blast
    then show "t' \<in> set (test_cases d) \<and> t_assigned_to t' = u_id u"
      by (simp add: set_scope_tests_QA [OF qa])
  qed
next
  show "q_status q = None \<and> q_module_platform q = None \<and> q_search q = None \<longrightarrow>
            ((\<exists>p. 0 < p \<and> t \<in> set (listed_tests ilike env u (q\<lparr>q_page := Some p\<rparr>) d))
               \<longleftrightarrow> t \<in> set (test_cases d) \<and> t_assigned_to t = u_id u)"
  proof (rule impI)
    assume nf: "q_status q = None \<and> q_module_platform q = None \<and> q_search q = None"
    show "(\<exists>p. 0 < p \<and> t \<in> set (listed_tests ilike env u (q\<lparr>q_page := Some p\<rparr>) d))
            \<longleftrightarrow> t \<in> set (test_cases d) \<and> t_assigned_to t = u_id u"
    proof
      assume "\<exists>p. 0 < p \<and> t \<in> set (listed_tests ilike env u (q\<lparr>q_page := Some p\<rparr>) d)"
      then obtain p where "t \<in> set (listed_tests ilike env u (q\<lparr>q_page := Some p\<rparr>) d)" by blast
      with listed_tests_subset have "t \<in> set (scope_tests u (test_cases d))" by blast
      then show "t \<in> set (test_cases d) \<and> t_assigned_to t = u_id u"
        by (simp add: set_scope_tests_QA [OF qa])
    next
      assume "t \<in> set (test_cases d) \<and> t_assigned_to t = u_id u"
      then have own: "t \<in> set (scope_tests u (test_cases d))"
        by (simp add: set_scope_tests_QA [OF qa])
      from nf listed_tests_page [OF ok, of q ilike u d] obtain sortField ascending l where
        l: "0 < l" and pg: "\<And>p'. 0 < p' \<Longrightarrow>
                listed_tests ilike env u (q\<lparr>q_page := Some p'\<rparr>) d
                  = take l (drop ((p' - 1) * l)
                      (order_tests sortField ascending (scope_tests u (test_cases d))))"
        by auto
      from own have "t \<in> set (order_tests sortField ascending (scope_tests u (test_cases d)))"
        by (simp add: set_order_tests)
      from in_some_page [OF this l] obtain p where p: "0 < p"
        and "t \<in> set (take l (drop ((p - 1) * l)
                      (order_tests sortField ascending (scope_tests u (test_cases d)))))"
        by blast
      with pg [OF p] have "t \<in> set (listed_tests ilike env u (q\<lparr>q_page := Some p\<rparr>) d)" by simp
      with p show "\<exists>p. 0 < p \<and> t \<in> set (listed_tests ilike env u (q\<lparr>q_page := Some p\<rparr>) d)"
        by blast
    qed
  qed
qed

theorem QA_list_is_own_tests_witness:
  "u_role mike = QA \<and> \<not> fails env0 SelectTestCases
   \<and> q_status q_all = None \<and> q_module_platform q_all = None \<and> q_search q_all = None
   \<and> test0 \<in> set (test_cases db0) \<and> t_assigned_to test0 = u_id mike
   \<and> (\<exists>p. 0 < p \<and> test0 \<in> set (listed_tests (\<lambda>pat v. True) env0 mike (q_all\<lparr>q_page := Some p\<rparr>) db0))"
proof -
  have qa: "u_role mike = QA" and ok: "\<not> fails env0 SelectTestCases"
    by (simp_all add: scenario_defs)
  have nf: "q_status q_all = None \<and> q_module_platform q_all = None \<and> q_search q_all = None"
    by (simp add: q_all_def)
  have own: "test0 \<in> set (test_cases db0) \<and> t_assigned_to test0 = u_id mike"
    by (simp add: scenario_defs)
  from QA_list_is_own_tests [OF qa ok, where q = q_all and t = test0 and d = db0
        and ilike = "\<lambda>pat v. True"] nf own
  have "\<exists>p. 0 < p \<and> test0 \<in> set (listed_tests (\<lambda>pat v. True) env0 mike (q_all\<lparr>q_page := Some p\<rparr>) db0)"
    by blast
  with qa ok nf own show ?thesis by blast
qed

section \<open>Requesting a password reset\<close>

lemma forgotPassword_mail_sent:
  assumes "\<not> email_fails env"
  shows "fst (forgotPassword env email d)
         = Inr (200, ''If an account exists, a password reset email has been sent.'')"
  using assms by (simp add: forgotPassword_def Let_def split: option.splits)

lemma forgotPassword_unknown:
  assumes "select_single env SelectUsers (filter (\<lambda>u. Some (u_email u) = email) (users d)) = None"
  shows "forgotPassword env email d
         = (Inr (200, ''If an account exists, a password reset email has been sent.''), d)"
  using assms by (simp add: forgotPassword_def)

text \<open>
  Claim C8 says that the request for a password reset is answered 200 for every email,
  with or without an account. It is so whenever the mail is sent
  (\<open>forgotPassword_mail_sent\<close>) and whenever no account is found
  (\<open>forgotPassword_unknown\<close>). When the mail service throws, the handler rethrows a
  500, and the mail is sent only for an account that exists: with the same failing mail
  service, Mike's address is answered 500 and an unknown address is answered 200.
\<close>

theorem forgotPassword_mail_failure_reveals_account:
  "fst (forgotPassword (env0\<lparr>email_fails := True\<rparr>) (Some ''mike@qualitysync.com'') db0)
     = Inl (ApiError 500 ''Failed to send password reset email'')
   \<and> fst (forgotPassword (env0\<lparr>email_fails := True\<rparr>) (Some ''nobody@qualitysync.com'') db0)
     = Inr (200, ''If an account exists, a password reset email has been sent.'')"
  by (simp add: forgotPassword_def select_single_def Let_def scenario_defs)

section \<open>The evidence link in the validation of the routes\<close>

lemma evidence_url_chain_rejects:
  assumes "\<not> isURL lib v \<or> (v \<noteq> [] \<and> \<not> str_includes v ''jam.dev'')"
  shows "evidence_url_chain lib (Some v) \<noteq> []"
  using assms by (auto simp: evidence_url_chain_def optional_def check_def str_def)

lemma route_createTest_rejects_evidence:
  assumes "u_role actor = PM" and "ct_evidence_url body = Some v"
      and "\<not> isURL lib v \<or> (v \<noteq> [] \<and> \<not> str_includes v ''jam.dev'')"
  shows "\<exists>es. route_createTest lib env actor body d = (Inl (ValidationFailed es), d)"
proof -
  from evidence_url_chain_rejects [OF assms(3)] assms(2)
  have "createTestValidation lib body \<noteq> []" by (simp add: createTestValidation_def)
  with assms(1) show ?thesis
    by (simp add: route_createTest_def authorize_def handleValidation_def)
qed

lemma route_updateTestResult_rejects_evidence:
  assumes "u_role actor = QA" and "rb_evidence_url body = Some v"
      and "\<not> isURL lib v \<or> (v \<noteq> [] \<and> \<not> str_includes v ''jam.dev'')"
  shows "\<exists>es. route_updateTestResult lib env actor ident body d = (Inl (ValidationFailed es), d)"
proof -
  from evidence_url_chain_rejects [OF assms(3)] assms(2)
  have "updateTestResultValidation lib ident body \<noteq> []"
    by (simp add: updateTestResultValidation_def)
  with assms(1) show ?thesis
    by (simp add: route_updateTestResult_def authorize_def handleValidation_def)
qed

lemma route_createBug_rejects_evidence:
  assumes "u_role actor = QA" and "cbg_jam_link body = Some v"
      and "\<not> isURL lib v \<or> \<not> str_includes v ''jam.dev''"
  shows "\<exists>es. route_createBug lib env actor body d = (Inl (ValidationFailed es), d)"
proof -
  from assms(2,3) have "createBugValidation lib body \<noteq> []"
    by (auto simp: createBugValidation_def check_def str_def)
  with assms(1) show ?thesis
    by (simp add: route_createBug_def authorize_def handleValidation_def)
qed

lemma updateTest_validation_evidence_only:
  "updateTest_validation lib evidence_only = []"
  by (simp add: updateTest_validation_def updateTest_evidence_url_chain_def optional_def
        check_def str_def evidence_only_def)

text \<open>
  Claim C9 says that every route that writes an evidence link rejects, with a 400 and
  before the handler runs, a link that is not a valid URL or has no \<open>jam.dev\<close> in it.
  The routes that create a test, record a result and create a bug do
  (\<open>route_createTest_rejects_evidence\<close>, \<open>route_updateTestResult_rejects_evidence\<close>,
  \<open>route_createBug_rejects_evidence\<close>). The chain of \<open>PUT /tests/:id\<close> has no
  \<open>isURL()\<close>: with a validator library whose \<open>isURL\<close> rejects every string, the
  text \<open>not a url jam.dev\<close> passes that route and is stored as the evidence link of
  \<open>test-0\<close>, while the route that creates a test rejects the same text.
\<close>

theorem route_updateTest_stores_non_URL_evidence:
  "isURL lib_no_url ''not a url jam.dev'' = False
   \<and> route_updateTest lib_no_url env0 pat ''test-0'' evidence_only db0
     = (Inr (200, test0\<lparr>t_evidence_url := Some ''not a url jam.dev'', t_updated_at := 100\<rparr>),
        db0\<lparr>test_cases := [test0\<lparr>t_evidence_url := Some ''not a url jam.dev'', t_updated_at := 100\<rparr>]\<rparr>)
   \<and> fst (route_createTest lib_no_url env0 pat
             (create_for_lisa\<lparr>ct_evidence_url := Some ''not a url jam.dev''\<rparr>) db0)
     = Inl (ValidationFailed [(''evidence_url'', ''Evidence URL must be a valid URL'')])"
proof (intro conjI)
  show "isURL lib_no_url ''not a url jam.dev'' = False"
    by (simp add: lib_no_url_def)
next
  have u: "isUUID lib_no_url ''test-0''" and r: "u_role pat = PM"
    by (simp_all add: lib_no_url_def pat_def)
  have "route_updateTest lib_no_url env0 pat ''test-0'' evidence_only db0
        = updateTest env0 pat ''test-0''
            (evidence_only\<lparr>ut_module_platform := map_option (trim lib_no_url) (ut_module_platform evidence_only),
                           ut_test_case := map_option (trim lib_no_url) (ut_test_case evidence_only),
                           ut_expected_result := map_option (trim lib_no_url) (ut_expected_result evidence_only)\<rparr>)
            db0"
    using u r
    by (simp add: route_updateTest_def authorize_def handleValidation_def uuidParamValidation_def
          updateTest_validation_evidence_only check_def)
  also have "\<dots> = (Inr (200, test0\<lparr>t_evidence_url := Some ''not a url jam.dev'', t_updated_at := 100\<rparr>),
        db0\<lparr>test_cases := [test0\<lparr>t_evidence_url := Some ''not a url jam.dev'', t_updated_at := 100\<rparr>]\<rparr>)"
    by (simp add: updateTest_def updateTest_data_def update_test_cases_def select_single_def
          or_null_def Let_def evidence_only_def scenario_defs)
  finally show "route_updateTest lib_no_url env0 pat ''test-0'' evidence_only db0
     = (Inr (200, test0\<lparr>t_evidence_url := Some ''not a url jam.dev'', t_updated_at := 100\<rparr>),
        db0\<lparr>test_cases := [test0\<lparr>t_evidence_url := Some ''not a url jam.dev'', t_updated_at := 100\<rparr>]\<rparr>)" .
next
  show "fst (route_createTest lib_no_url env0 pat
             (create_for_lisa\<lparr>ct_evidence_url := Some ''not a url jam.dev''\<rparr>) db0)
     = Inl (ValidationFailed [(''evidence_url'', ''Evidence URL must be a valid URL'')])"
    by (simp add: route_createTest_def authorize_def handleValidation_def createTestValidation_def
          evidence_url_chain_def optional_def check_def str_def lib_no_url_def create_for_lisa_def
          pat_def)
qed

section \<open>Recording the result of a test\<close>

lemma single_SomeD: "single xs = Some x \<Longrightarrow> xs = [x]"
  by (cases xs rule: single.cases) auto

lemma update_test_cases_Some:
  assumes run: "update_test_cases env tid f d = (Some t, d')"
      and ids: "\<And>x. t_id (f x) = t_id x"
  shows "(\<exists>x \<in> set (test_cases d). t_id x = tid \<and> t = (f x)\<lparr>t_updated_at := now env\<rparr>)
         \<and> filter (\<lambda>t. t_id t = tid) (test_cases d') = [t]"
proof -
  let ?g = "\<lambda>t. if t_id t = tid then (f t)\<lparr>t_updated_at := now env\<rparr> else t"
  from run have nf: "\<not> fails env UpdateTestCases"
    by (auto simp: update_test_cases_def split: if_splits)
  with run have s: "single (filter (\<lambda>t. t_id t = tid) (map ?g (test_cases d))) = Some t"
    and d': "test_cases d' = map ?g (test_cases d)"
    by (auto simp: update_test_cases_def Let_def)
  from single_SomeD [OF s] have one: "filter (\<lambda>t. t_id t = tid) (map ?g (test_cases d)) = [t]" .
  then have "t \<in> set (filter (\<lambda>t. t_id t = tid) (map ?g (test_cases d)))" by simp
  then have both: "t \<in> set (map ?g (test_cases d)) \<and> t_id t = tid"
    by (simp only: set_filter mem_Collect_eq)
  then have tid: "t_id t = tid" ..
  from both have "t \<in> ?g ` set (test_cases d)" by (simp only: set_map)
  then obtain x where x: "x \<in> set (test_cases d)" and tx: "t = ?g x" by (rule imageE)
  have "t_id x = tid"
  proof (rule ccontr)
    assume "t_id x \<noteq> tid"
    with tx have "t = x" by simp
    with tid \<open>t_id x \<noteq> tid\<close> show False by simp
  qed
  with tx have "t = (f x)\<lparr>t_updated_at := now env\<rparr>" by simp
  with x \<open>t_id x = tid\<close> one d' show ?thesis by auto
qed

text \<open>
  The handler alone: when it answers with success, the actor is the assignee, the answer
  is the one row of \<open>test_cases\<close> with that id, and its \<open>evidence_url\<close> and
  \<open>notes\<close> are decided by the body it receives: the value given when it is a
  non-empty text, null when the field is absent or the empty text.
\<close>

lemma updateTestResult_overwrites:
  assumes "updateTestResult env actor tid body d = (Inr (c, t), d')"
  shows "c = 200 \<and> t_id t = tid \<and> t_assigned_to t = u_id actor
       \<and> filter (\<lambda>t. t_id t = tid) (test_cases d') = [t]
       \<and> t_evidence_url t =
           (case rb_evidence_url body of None \<Rightarrow> None | Some v \<Rightarrow> if v = [] then None else Some v)
       \<and> t_notes t =
           (case rb_notes body of None \<Rightarrow> None | Some v \<Rightarrow> if v = [] then None else Some v)"
proof -
  from assms obtain existing set_status where
    sel: "select_single env SelectTestCases (filter (\<lambda>t. t_id t = tid) (test_cases d)) = Some existing"
    and own: "t_assigned_to existing = u_id actor"
    and st: "(case rb_status body of
                None \<Rightarrow> Some (\<lambda>t. t)
              | Some s \<Rightarrow> map_option (\<lambda>st t. t\<lparr>t_status := st\<rparr>) (parse_test_status s)) = Some set_status"
    and upd: "update_test_cases env tid
                (\<lambda>t. (set_status t)\<lparr>t_evidence_url := or_null (rb_evidence_url body),
                                   t_notes := or_null (rb_notes body)\<rparr>) d = (Some t, d')"
    and c: "c = 200"
    by (auto simp: updateTestResult_def split: option.splits if_splits prod.splits)
  have keep: "t_id (set_status x) = t_id x \<and> t_assigned_to (set_status x) = t_assigned_to x" for x
    using st by (cases "rb_status body") auto
  have ids: "t_id ((set_status x)\<lparr>t_evidence_url := or_null (rb_evidence_url body),
                                 t_notes := or_null (rb_notes body)\<rparr>) = t_id x" for x
    using keep by simp
  from update_test_cases_Some [OF upd ids] obtain x where
    x: "x \<in> set (test_cases d)" "t_id x = tid"
    and t: "t = (set_status x)\<lparr>t_evidence_url := or_null (rb_evidence_url body),
                               t_notes := or_null (rb_notes body),
                               t_updated_at := now env\<rparr>"
    and one: "filter (\<lambda>t. t_id t = tid) (test_cases d') = [t]"
    by auto
  from sel have "filter (\<lambda>t. t_id t = tid) (test_cases d) = [existing]"
    by (auto simp: select_single_def split: if_splits dest: single_SomeD)
  moreover from x have "x \<in> set (filter (\<lambda>t. t_id t = tid) (test_cases d))" by simp
  ultimately have "x = existing" by simp
  with own keep t have asg: "t_assigned_to t = u_id actor" by simp
  have ev: "t_evidence_url t =
           (case rb_evidence_url body of None \<Rightarrow> None | Some v \<Rightarrow> if v = [] then None else Some v)"
    by (simp add: t or_null_def split: option.splits)
  have no: "t_notes t =
           (case rb_notes body of None \<Rightarrow> None | Some v \<Rightarrow> if v = [] then None else Some v)"
    by (simp add: t or_null_def split: option.splits)
  from keep x t have "t_id t = tid" by simp
  with c asg one ev no show ?thesis by simp
qed

lemma route_updateTestResult_InrD:
  assumes "route_updateTestResult lib env actor tid body d = (Inr r, d')"
  shows "updateTestResult env actor tid (body\<lparr>rb_notes := map_option (trim lib) (rb_notes body)\<rparr>) d
         = (Inr r, d')"
  using assms
  by (simp add: route_updateTestResult_def split: option.splits)

lemmas route_result_defs =
  route_updateTestResult_def authorize_def handleValidation_def updateTestResultValidation_def
  evidence_url_chain_def optional_def check_def str_def lib_strip_blanks_def strip_blanks_def
  result_with_notes_def updateTestResult_def update_test_cases_def select_single_def or_null_def
  Let_def

lemma eval_route_result_padded:
  "route_updateTestResult lib_strip_blanks env0 mike ''test-0'' (result_with_notes '' kept '') db0
     = (Inr (200, test0\<lparr>t_status := Fail, t_evidence_url := Some ''https://jam.dev/c/9'',
                       t_notes := Some ''kept'', t_updated_at := 100\<rparr>),
        db0\<lparr>test_cases := [test0\<lparr>t_status := Fail, t_evidence_url := Some ''https://jam.dev/c/9'',
                                 t_notes := Some ''kept'', t_updated_at := 100\<rparr>]\<rparr>)"
  by (simp add: route_result_defs scenario_defs)

lemma eval_route_result_blank:
  "route_updateTestResult lib_strip_blanks env0 mike ''test-0'' (result_with_notes ''   '') db0
     = (Inr (200, test0\<lparr>t_status := Fail, t_evidence_url := Some ''https://jam.dev/c/9'',
                       t_notes := None, t_updated_at := 100\<rparr>),
        db0\<lparr>test_cases := [test0\<lparr>t_status := Fail, t_evidence_url := Some ''https://jam.dev/c/9'',
                                 t_notes := None, t_updated_at := 100\<rparr>]\<rparr>)"
  by (simp add: route_result_defs scenario_defs)

text \<open>
  Claim C10 says that after a successful \<open>PUT /tests/:id/result\<close> the stored
  \<open>evidence_url\<close> and \<open>notes\<close> are the supplied values when these are non-empty, and
  null when the field is absent or the empty text. The route runs the sanitizer
  \<open>trim()\<close> on \<open>notes\<close> before the handler. With a library whose \<open>trim\<close> strips
  blanks at both ends, the supplied notes \<open>' kept '\<close> are stored as \<open>'kept'\<close>, and
  supplied notes of three blanks, a non-empty text, are stored as null.
\<close>

theorem result_notes_are_trimmed:
  "rb_notes (result_with_notes '' kept '') = Some '' kept ''
   \<and> trim lib_strip_blanks '' kept '' = ''kept''
   \<and> fst (route_updateTestResult lib_strip_blanks env0 mike ''test-0'' (result_with_notes '' kept '') db0)
       = Inr (200, test0\<lparr>t_status := Fail, t_evidence_url := Some ''https://jam.dev/c/9'',
                         t_notes := Some ''kept'', t_updated_at := 100\<rparr>)
   \<and> rb_notes (result_with_notes ''   '') = Some ''   ''
   \<and> trim lib_strip_blanks ''   '' = []
   \<and> fst (route_updateTestResult lib_strip_blanks env0 mike ''test-0'' (result_with_notes ''   '') db0)
       = Inr (200, test0\<lparr>t_status := Fail, t_evidence_url := Some ''https://jam.dev/c/9'',
                         t_notes := None, t_updated_at := 100\<rparr>)"
  unfolding eval_route_result_padded eval_route_result_blank
  by (simp add: result_with_notes_def lib_strip_blanks_def strip_blanks_def)

text \<open>
  Claim C10 as amended. After every successful \<open>PUT /tests/:id/result\<close> (the route:
  role check, validation, sanitizer, handler) the actor is the assignee and the one row
  with that id has: as \<open>evidence_url\<close> the supplied value when it is a non-empty text
  and null when the field is absent or empty; as \<open>notes\<close> the supplied value after
  \<open>trim\<close> when that is a non-empty text, and null when the field is absent, empty or
  trimmed to the empty text. What the row held before plays no part.
\<close>

theorem recorded_result_overwrites:
  assumes "route_updateTestResult lib env actor tid body d = (Inr (c, t), d')"
  shows "c = 200 \<and> t_id t = tid \<and> t_assigned_to t = u_id actor
       \<and> filter (\<lambda>t. t_id t = tid) (test_cases d') = [t]
       \<and> t_evidence_url t =
           (case rb_evidence_url body of None \<Rightarrow> None | Some v \<Rightarrow> if v = [] then None else Some v)
       \<and> t_notes t =
           (case rb_notes body of None \<Rightarrow> None
            | Some v \<Rightarrow> if trim lib v = [] then None else Some (trim lib v))"
proof -
  from updateTestResult_overwrites [OF route_updateTestResult_InrD [OF assms]]
  show ?thesis by (simp split: option.splits)
qed

theorem recorded_result_overwrites_witness:
  "route_updateTestResult lib_strip_blanks env0 mike ''test-0'' (result_with_notes '' kept '') db0
     = (Inr (200, test0\<lparr>t_status := Fail, t_evidence_url := Some ''https://jam.dev/c/9'',
                       t_notes := Some ''kept'', t_updated_at := 100\<rparr>),
        db0\<lparr>test_cases := [test0\<lparr>t_status := Fail, t_evidence_url := Some ''https://jam.dev/c/9'',
                                 t_notes := Some ''kept'', t_updated_at := 100\<rparr>]\<rparr>)
   \<and> t_notes test0 = Some ''first run'' \<and> t_evidence_url test0 = Some ''https://jam.dev/c/2''
   \<and> t_notes (test0\<lparr>t_status := Fail, t_evidence_url := Some ''https://jam.dev/c/9'',
                      t_notes := Some ''kept'', t_updated_at := 100\<rparr>)
       = Some (trim lib_strip_blanks '' kept '')
   \<and> t_evidence_url (test0\<lparr>t_status := Fail, t_evidence_url := Some ''https://jam.dev/c/9'',
                      t_notes := Some ''kept'', t_updated_at := 100\<rparr>) = Some ''https://jam.dev/c/9''"
  using recorded_result_overwrites [OF eval_route_result_padded] eval_route_result_padded
  by (simp add: result_with_notes_def lib_strip_blanks_def strip_blanks_def test0_def)

end
